theory Spec2Isabelle
  imports Complex_Main
begin

section \<open>Python values, exceptions and library functions\<close>

text \<open>
  The client of \<^verbatim>\<open>robinhood.py\<close> works on decoded JSON (what \<^verbatim>\<open>response.json()\<close>
  returns) and raises Python exceptions. Both become data: a JSON value is a term of
  type \<open>json\<close>, and a function that may raise returns \<open>error + 'a\<close>, with \<open>Inl\<close> the
  exception. A Python \<^verbatim>\<open>str\<close> is a \<open>string\<close>, read as the bytes of its UTF-8
  encoding, so that \<^verbatim>\<open>.encode("utf-8")\<close> is the identity. The type variable \<open>'f\<close>
  stands for Python's \<^verbatim>\<open>float\<close> (IEEE binary64), whose arithmetic is not modelled: it
  enters through the library record below.
\<close>

datatype error =
    KeyError string
  | IndexError
  | TypeError
  | AttributeError
  | ValueError string
  | ValidationError
  | ZeroDivisionError
  | JSONDecodeError
  | RequestException string

datatype 'f json =
    JNull
  | JBool bool
  | JInt int
  | JFloat 'f
  | JStr string
  | JArr "'f json list"
  | JObj "(string \<times> 'f json) list"

text \<open>
  \<^verbatim>\<open>datetime.datetime\<close>: the wall-clock fields as microseconds since the start of
  year 1, and the UTC offset in microseconds (\<open>None\<close> for a naive value). Python compares
  two aware values by their UTC instants, two naive values by their fields, and a naive
  with an aware value as different.
\<close>

record datetime =
  local_us :: int
  utcoffset :: "int option"

definition dt_eq :: "datetime \<Rightarrow> datetime \<Rightarrow> bool" where
  "dt_eq a b =
     (case (utcoffset a, utcoffset b) of
        (None, None) \<Rightarrow> local_us a = local_us b
      | (Some x, Some y) \<Rightarrow> local_us a - x = local_us b - y
      | _ \<Rightarrow> False)"

text \<open>
  The library functions the client calls, as a record of parameters. Each field is the
  Python function of that name, on the inputs this theory does not compute itself:
  \<open>round64 neg q\<close> is the binary64 value nearest to the rational \<open>q \<ge> 0\<close> with sign
  \<open>neg\<close> (what a decimal literal or a decimal string denotes as a float);
  \<open>float_other\<close> is \<^verbatim>\<open>float(x)\<close> on everything but a plain decimal string;
  \<open>float_str\<close> is \<^verbatim>\<open>str(x)\<close> of a float; \<open>truediv\<close> is \<^verbatim>\<open>/\<close> on floats;
  \<open>fromisoformat\<close> is \<^verbatim>\<open>datetime.datetime.fromisoformat\<close>; \<open>str_other\<close> is pydantic's
  validation of a \<^verbatim>\<open>str\<close> field on a value that is not a \<^verbatim>\<open>str\<close>; \<open>sign\<close> is
  \<^verbatim>\<open>SigningKey.sign(m).signature\<close> for the client's private key; \<open>b64encode\<close> is
  \<^verbatim>\<open>base64.b64encode\<close>; \<open>loads_other\<close> is \<^verbatim>\<open>json.loads\<close> on a non-empty string and
  \<open>dumps\<close> is \<^verbatim>\<open>json.dumps\<close>.
\<close>

record 'f pylib =
  round64 :: "bool \<Rightarrow> rat \<Rightarrow> 'f"
  float_other :: "'f json \<Rightarrow> error + 'f"
  float_str :: "'f \<Rightarrow> string"
  truediv :: "'f \<Rightarrow> 'f \<Rightarrow> error + 'f"
  fromisoformat :: "'f json \<Rightarrow> error + datetime"
  str_other :: "'f json \<Rightarrow> error + string"
  sign :: "string \<Rightarrow> string"
  b64encode :: "string \<Rightarrow> string"
  loads_other :: "string \<Rightarrow> error + 'f json"
  dumps :: "'f json \<Rightarrow> string"

text \<open>Sequencing of calls that may raise: the first exception ends the evaluation.\<close>

definition bind :: "error + 'a \<Rightarrow> ('a \<Rightarrow> error + 'b) \<Rightarrow> error + 'b" where
  "bind m f = (case m of Inl e \<Rightarrow> Inl e | Inr v \<Rightarrow> f v)"

fun mapM :: "('a \<Rightarrow> error + 'b) \<Rightarrow> 'a list \<Rightarrow> error + 'b list" where
  "mapM f [] = Inr []"
| "mapM f (x # xs) = bind (f x) (\<lambda>y. bind (mapM f xs) (\<lambda>ys. Inr (y # ys)))"

text \<open>\<^verbatim>\<open>d[k]\<close>, \<^verbatim>\<open>d.get(k)\<close>, \<^verbatim>\<open>for x in d\<close> and \<^verbatim>\<open>xs[0]\<close> on Python values.\<close>

definition subscript :: "'f json \<Rightarrow> string \<Rightarrow> error + 'f json" where
  "subscript d k =
     (case d of
        JObj kvs \<Rightarrow> (case map_of kvs k of None \<Rightarrow> Inl (KeyError k) | Some v \<Rightarrow> Inr v)
      | _ \<Rightarrow> Inl TypeError)"

definition dict_get :: "'f json \<Rightarrow> string \<Rightarrow> error + 'f json" where
  "dict_get d k =
     (case d of
        JObj kvs \<Rightarrow> (case map_of kvs k of None \<Rightarrow> Inr JNull | Some v \<Rightarrow> Inr v)
      | _ \<Rightarrow> Inl AttributeError)"

definition iterate :: "'f json \<Rightarrow> error + 'f json list" where
  "iterate r =
     (case r of
        JArr xs \<Rightarrow> Inr xs
      | JObj kvs \<Rightarrow> Inr (map (\<lambda>kv. JStr (fst kv)) kvs)
      | JStr s \<Rightarrow> Inr (map (\<lambda>c. JStr [c]) s)
      | _ \<Rightarrow> Inl TypeError)"

definition first :: "'a list \<Rightarrow> error + 'a" where
  "first xs = (case xs of [] \<Rightarrow> Inl IndexError | x # _ \<Rightarrow> Inr x)"

text \<open>
  \<^verbatim>\<open>float(x)\<close>. On a plain decimal string (an optional sign, digits, at most one point,
  at least one digit) CPython returns the correctly rounded value of the decimal; the
  other inputs (exponents, \<^verbatim>\<open>inf\<close>, \<^verbatim>\<open>nan\<close>, blanks, underscores, numbers,
  \<^verbatim>\<open>None\<close>) are left to \<open>float_other\<close>.
\<close>

definition digit_val :: "char \<Rightarrow> nat option" where
  "digit_val c = map_of (zip ''0123456789'' [0, 1, 2, 3, 4, 5, 6, 7, 8, 9]) c"

fun digits_val :: "nat \<Rightarrow> string \<Rightarrow> nat option" where
  "digits_val acc [] = Some acc"
| "digits_val acc (c # cs) =
     (case digit_val c of None \<Rightarrow> None | Some d \<Rightarrow> digits_val (10 * acc + d) cs)"

definition unsigned_decimal :: "string \<Rightarrow> rat option" where
  "unsigned_decimal s =
     (let ip = takeWhile (\<lambda>c. c \<noteq> CHR ''.'') s;
          rest = dropWhile (\<lambda>c. c \<noteq> CHR ''.'') s;
          fp = (if rest = [] then [] else tl rest)
      in if ip = [] \<and> fp = [] then None
         else case (digits_val 0 ip, digits_val 0 fp) of
                (Some i, Some f) \<Rightarrow> Some (of_nat i + of_nat f / 10 ^ length fp)
              | _ \<Rightarrow> None)"

definition decimal_literal :: "string \<Rightarrow> (bool \<times> rat) option" where
  "decimal_literal s =
     (case s of
        [] \<Rightarrow> None
      | c # cs \<Rightarrow>
          if c = CHR ''-'' then map_option (Pair True) (unsigned_decimal cs)
          else if c = CHR ''+'' then map_option (Pair False) (unsigned_decimal cs)
          else map_option (Pair False) (unsigned_decimal s))"

definition py_float :: "'f pylib \<Rightarrow> 'f json \<Rightarrow> error + 'f" where
  "py_float lib x =
     (case x of
        JStr s \<Rightarrow>
          (case decimal_literal s of
             Some (neg, q) \<Rightarrow> Inr (round64 lib neg q)
           | None \<Rightarrow> float_other lib x)
      | _ \<Rightarrow> float_other lib x)"

text \<open>pydantic's validation of a \<^verbatim>\<open>str\<close> field: a \<^verbatim>\<open>str\<close> is kept as it is.\<close>

definition str_field :: "'f pylib \<Rightarrow> 'f json \<Rightarrow> error + string" where
  "str_field lib x = (case x of JStr s \<Rightarrow> Inr s | _ \<Rightarrow> str_other lib x)"

section \<open>Domain model\<close>

text \<open>
  The pydantic models of \<^verbatim>\<open>robinhood.py\<close>. Field names are the source's, except where
  two models share a name: \<open>tp_symbol\<close>, \<open>ba_timestamp\<close>, \<open>he_symbol\<close> and
  \<open>he_timestamp\<close> are the fields \<^verbatim>\<open>symbol\<close> and \<^verbatim>\<open>timestamp\<close> of \<^verbatim>\<open>TradingPair\<close>,
  \<^verbatim>\<open>EstimatedBidAndAskPrice\<close> and \<^verbatim>\<open>EstimatedOrderPriceHistoryEntry\<close>.
\<close>

record 'f TradingPair =
  asset_code :: string
  asset_increment :: 'f
  max_order_size :: 'f
  min_order_size :: 'f
  quote_code :: string
  quote_increment :: 'f
  status :: string
  tp_symbol :: string

record 'f EstimatedOrderPrice =
  symbol :: string
  price :: 'f
  quantity :: 'f
  side :: string
  timestamp :: datetime
  price_including_spread :: 'f
  spread :: 'f

record 'f EstimatedBidAndAskPrice =
  bid :: "'f EstimatedOrderPrice"
  ask :: "'f EstimatedOrderPrice"
  ba_timestamp :: datetime

record 'f EstimatedOrderPriceHistoryEntry =
  he_symbol :: string
  bid_price :: 'f
  bid_quantity :: 'f
  bid_side :: string
  bid_timestamp :: datetime
  bid_price_including_spread :: 'f
  bid_spread :: 'f
  ask_price :: 'f
  ask_quantity :: 'f
  ask_side :: string
  ask_timestamp :: datetime
  ask_price_including_spread :: 'f
  ask_spread :: 'f
  he_timestamp :: datetime

text \<open>
  \<^verbatim>\<open>TradingPair.from_dict\<close>: the arguments of \<^verbatim>\<open>cls(...)\<close> are evaluated in the order
  written (each lookup may raise \<^verbatim>\<open>KeyError\<close>, each \<^verbatim>\<open>float\<close> may raise), then
  pydantic validates the \<^verbatim>\<open>str\<close> fields in the order the class declares them.
\<close>

definition TradingPair_from_dict :: "'f pylib \<Rightarrow> 'f json \<Rightarrow> error + 'f TradingPair" where
  "TradingPair_from_dict lib data =
     bind (subscript data ''asset_code'') (\<lambda>ac.
     bind (bind (subscript data ''asset_increment'') (py_float lib)) (\<lambda>ai.
     bind (bind (subscript data ''max_order_size'') (py_float lib)) (\<lambda>mx.
     bind (bind (subscript data ''min_order_size'') (py_float lib)) (\<lambda>mn.
     bind (subscript data ''quote_code'') (\<lambda>qc.
     bind (bind (subscript data ''quote_increment'') (py_float lib)) (\<lambda>qi.
     bind (subscript data ''status'') (\<lambda>st.
     bind (subscript data ''symbol'') (\<lambda>sy.
     bind (str_field lib ac) (\<lambda>ac'.
     bind (str_field lib qc) (\<lambda>qc'.
     bind (str_field lib st) (\<lambda>st'.
     bind (str_field lib sy) (\<lambda>sy'.
       Inr \<lparr>asset_code = ac', asset_increment = ai, max_order_size = mx,
            min_order_size = mn, quote_code = qc', quote_increment = qi,
            status = st', tp_symbol = sy'\<rparr>))))))))))))"

text \<open>\<^verbatim>\<open>EstimatedOrderPrice.from_dict\<close>: the two spread keys are chosen by \<^verbatim>\<open>data["side"]\<close>.\<close>

definition EstimatedOrderPrice_from_dict ::
  "'f pylib \<Rightarrow> 'f json \<Rightarrow> error + 'f EstimatedOrderPrice" where
  "EstimatedOrderPrice_from_dict lib data =
     bind (subscript data ''side'') (\<lambda>sd0.
       let price_including_spread_key =
             (if sd0 = JStr ''bid'' then ''bid_inclusive_of_sell_spread''
              else ''ask_inclusive_of_buy_spread'');
           spread_key = (if sd0 = JStr ''bid'' then ''sell_spread'' else ''buy_spread'')
       in
     bind (subscript data ''symbol'') (\<lambda>sy.
     bind (bind (subscript data ''price'') (py_float lib)) (\<lambda>p.
     bind (bind (subscript data ''quantity'') (py_float lib)) (\<lambda>q.
     bind (subscript data ''side'') (\<lambda>sd.
     bind (bind (subscript data ''timestamp'') (fromisoformat lib)) (\<lambda>ts.
     bind (bind (subscript data price_including_spread_key) (py_float lib)) (\<lambda>pis.
     bind (bind (subscript data spread_key) (py_float lib)) (\<lambda>sp.
     bind (str_field lib sy) (\<lambda>sy'.
     bind (str_field lib sd) (\<lambda>sd'.
       Inr \<lparr>symbol = sy', price = p, quantity = q, side = sd', timestamp = ts,
            price_including_spread = pis, spread = sp\<rparr>))))))))))"

text \<open>
  \<^verbatim>\<open>EstimatedBidAndAskPrice.from_objs\<close> and \<^verbatim>\<open>from_dict\<close>: both raise
  \<^verbatim>\<open>ValueError("Bid and ask timestamps must match")\<close> when \<^verbatim>\<open>bid.timestamp != ask.timestamp\<close>.
\<close>

definition EstimatedBidAndAskPrice_from_objs ::
  "'f EstimatedOrderPrice \<Rightarrow> 'f EstimatedOrderPrice \<Rightarrow> error + 'f EstimatedBidAndAskPrice" where
  "EstimatedBidAndAskPrice_from_objs b a =
     (if \<not> dt_eq (timestamp b) (timestamp a)
      then Inl (ValueError ''Bid and ask timestamps must match'')
      else Inr \<lparr>bid = b, ask = a, ba_timestamp = timestamp b\<rparr>)"

definition EstimatedBidAndAskPrice_from_dict ::
  "'f pylib \<Rightarrow> 'f json \<Rightarrow> error + 'f EstimatedBidAndAskPrice" where
  "EstimatedBidAndAskPrice_from_dict lib data =
     bind (bind (subscript data ''bid'') (EstimatedOrderPrice_from_dict lib)) (\<lambda>b.
     bind (bind (subscript data ''ask'') (EstimatedOrderPrice_from_dict lib)) (\<lambda>a.
       if \<not> dt_eq (timestamp b) (timestamp a)
       then Inl (ValueError ''Bid and ask timestamps must match'')
       else Inr \<lparr>bid = b, ask = a, ba_timestamp = timestamp b\<rparr>))"

text \<open>
  \<^verbatim>\<open>EstimatedOrderPriceHistoryEntry.from_obj\<close> flattens a checked pair;
  \<^verbatim>\<open>from_objs\<close> takes the two sides directly and compares no timestamps.
\<close>

definition EstimatedOrderPriceHistoryEntry_from_obj ::
  "'f EstimatedBidAndAskPrice \<Rightarrow> 'f EstimatedOrderPriceHistoryEntry" where
  "EstimatedOrderPriceHistoryEntry_from_obj data =
     \<lparr>he_symbol = symbol (bid data),
      bid_price = price (bid data),
      bid_quantity = quantity (bid data),
      bid_side = side (bid data),
      bid_timestamp = timestamp (bid data),
      bid_price_including_spread = price_including_spread (bid data),
      bid_spread = spread (bid data),
      ask_price = price (ask data),
      ask_quantity = quantity (ask data),
      ask_side = side (ask data),
      ask_timestamp = timestamp (ask data),
      ask_price_including_spread = price_including_spread (ask data),
      ask_spread = spread (ask data),
      he_timestamp = ba_timestamp data\<rparr>"

definition EstimatedOrderPriceHistoryEntry_from_objs ::
  "'f EstimatedOrderPrice \<Rightarrow> 'f EstimatedOrderPrice \<Rightarrow> 'f EstimatedOrderPriceHistoryEntry" where
  "EstimatedOrderPriceHistoryEntry_from_objs b a =
     \<lparr>he_symbol = symbol b,
      bid_price = price b,
      bid_quantity = quantity b,
      bid_side = side b,
      bid_timestamp = timestamp b,
      bid_price_including_spread = price_including_spread b,
      bid_spread = spread b,
      ask_price = price a,
      ask_quantity = quantity a,
      ask_side = side a,
      ask_timestamp = timestamp a,
      ask_price_including_spread = price_including_spread a,
      ask_spread = spread a,
      he_timestamp = timestamp b\<rparr>"

section \<open>Signer and transport\<close>

text \<open>
  \<^verbatim>\<open>str(n)\<close> of an integer, \<^verbatim>\<open>"&".join\<close>, and \<^verbatim>\<open>json.loads\<close>, which raises
  \<^verbatim>\<open>JSONDecodeError\<close> (not a \<^verbatim>\<open>RequestException\<close>) on the empty string.
\<close>

fun str_nat :: "nat \<Rightarrow> string" where
  "str_nat n =
     (if n < 10 then [''0123456789'' ! n]
      else str_nat (n div 10) @ [''0123456789'' ! (n mod 10)])"

declare str_nat.simps [simp del]

definition str_int :: "int \<Rightarrow> string" where
  "str_int i = (if i < 0 then CHR ''-'' # str_nat (nat (- i)) else str_nat (nat i))"

fun join :: "string \<Rightarrow> string list \<Rightarrow> string" where
  "join sep [] = []"
| "join sep [x] = x"
| "join sep (x # y # ys) = x @ sep @ join sep (y # ys)"

definition py_loads :: "'f pylib \<Rightarrow> string \<Rightarrow> error + 'f json" where
  "py_loads lib s = (if s = [] then Inl JSONDecodeError else loads_other lib s)"

text \<open>
  The client object: the API key and the base URL (the private key is inside
  \<open>sign\<close>). An HTTP call as \<^verbatim>\<open>requests.get\<close> or \<^verbatim>\<open>requests.post\<close> receives it, and
  the response with the fields the client reads; \<open>json_result\<close> is what
  \<^verbatim>\<open>response.json()\<close> returns or raises. The network is a function \<open>net\<close> from the call
  to the response, or to the exception that \<^verbatim>\<open>requests\<close> raises.
\<close>

record client =
  api_key :: string
  base_url :: string

record 'f http_call =
  http_method :: string
  url :: string
  headers :: "(string \<times> string) list"
  json_payload :: "'f json option"
  timeout :: nat

record 'f response =
  status_code :: int
  text_body :: string
  json_result :: "error + 'f json"

text \<open>
  The state the operations share: the memoization cache (key: the tuple of symbols
  given to \<^verbatim>\<open>get_trading_pairs\<close>, there being one client object; value: the expiry
  time and the stored result) and the log of the HTTP calls made so far.
\<close>

record 'f state =
  cache :: "string list \<rightharpoonup> real \<times> 'f TradingPair list"
  sent :: "'f http_call list"

definition sbind ::
  "('s \<Rightarrow> (error + 'a) \<times> 's) \<Rightarrow> ('a \<Rightarrow> 's \<Rightarrow> (error + 'b) \<times> 's) \<Rightarrow> 's \<Rightarrow> (error + 'b) \<times> 's" where
  "sbind m f st = (case m st of (Inl e, st') \<Rightarrow> (Inl e, st') | (Inr v, st') \<Rightarrow> f v st')"

definition lift :: "error + 'a \<Rightarrow> 's \<Rightarrow> (error + 'a) \<times> 's" where
  "lift r st = (r, st)"

definition get_current_timestamp :: "real \<Rightarrow> int" where
  "get_current_timestamp now = (if 0 \<le> now then \<lfloor>now\<rfloor> else \<lceil>now\<rceil>)"

definition get_query_params :: "string \<Rightarrow> string list \<Rightarrow> string" where
  "get_query_params key args =
     (if args = [] then []
      else ''?'' @ join ''&'' (map (\<lambda>arg. key @ ''='' @ arg) args))"

definition get_authorization_header ::
  "'f pylib \<Rightarrow> client \<Rightarrow> string \<Rightarrow> string \<Rightarrow> string \<Rightarrow> int \<Rightarrow> (string \<times> string) list" where
  "get_authorization_header lib c method path body ts =
     (let message_to_sign = api_key c @ str_int ts @ path @ method @ body;
          signed = sign lib message_to_sign
      in [(''x-api-key'', api_key c),
          (''x-signature'', b64encode lib signed),
          (''x-timestamp'', str_int ts)])"

text \<open>
  \<^verbatim>\<open>make_api_request\<close>. Inside the \<^verbatim>\<open>try\<close>, only a \<^verbatim>\<open>RequestException\<close> is caught
  (\<open>catch\<close>); \<^verbatim>\<open>json.loads(body)\<close> runs before \<^verbatim>\<open>requests.post\<close>; with a method
  other than GET and POST, \<^verbatim>\<open>response\<close> stays a dict and \<^verbatim>\<open>response.status_code\<close>
  raises \<^verbatim>\<open>AttributeError\<close>.
\<close>

definition catch :: "error \<Rightarrow> error + 'f json" where
  "catch e = (case e of RequestException m \<Rightarrow> Inr JNull | _ \<Rightarrow> Inl e)"

definition read_response :: "error + 'f response \<Rightarrow> error + 'f json" where
  "read_response r =
     (case r of
        Inl e \<Rightarrow> catch e
      | Inr resp \<Rightarrow>
          if status_code resp \<ge> 400 then Inr JNull
          else (case json_result resp of Inl e \<Rightarrow> catch e | Inr j \<Rightarrow> Inr j))"

definition make_api_request ::
  "'f pylib \<Rightarrow> client \<Rightarrow> ('f http_call \<Rightarrow> error + 'f response) \<Rightarrow> real \<Rightarrow>
   string \<Rightarrow> string \<Rightarrow> string \<Rightarrow> 'f state \<Rightarrow> (error + 'f json) \<times> 'f state" where
  "make_api_request lib c net now method path body st =
     (let ts = get_current_timestamp now;
          hs = get_authorization_header lib c method path body ts;
          u = base_url c @ path
      in if method = ''GET'' then
           (let call = \<lparr>http_method = ''GET'', url = u, headers = hs,
                        json_payload = None, timeout = 10\<rparr>
            in (read_response (net call), st\<lparr>sent := sent st @ [call]\<rparr>))
         else if method = ''POST'' then
           (case py_loads lib body of
              Inl e \<Rightarrow> (catch e, st)
            | Inr j \<Rightarrow>
                (let call = \<lparr>http_method = ''POST'', url = u, headers = hs,
                             json_payload = Some j, timeout = 10\<rparr>
                 in (read_response (net call), st\<lparr>sent := sent st @ [call]\<rparr>)))
         else (Inl AttributeError, st))"

text \<open>
  The call that \<^verbatim>\<open>make_api_request\<close> hands to \<^verbatim>\<open>requests\<close> for a method, path and
  body at time \<open>now\<close>, with the JSON payload \<open>payload\<close> (used to state what was sent).
\<close>

definition signed_call ::
  "'f pylib \<Rightarrow> client \<Rightarrow> real \<Rightarrow> string \<Rightarrow> string \<Rightarrow> string \<Rightarrow> 'f json option \<Rightarrow> 'f http_call" where
  "signed_call lib c now method path body payload =
     \<lparr>http_method = method, url = base_url c @ path,
      headers = get_authorization_header lib c method path body (get_current_timestamp now),
      json_payload = payload, timeout = 10\<rparr>"

section \<open>Cache\<close>

text \<open>
  Modelled from the spec: the \<^verbatim>\<open>memoize\<close> decorator of the cache object (the
  \<^verbatim>\<open>diskcache\<close> package, whose code is not among the sources). Section 4.3:
  \<^verbatim>\<open>memoize(key, ttl)\<close> gives the cached value or the freshly computed value, the key
  being the argument tuple of the wrapped operation; an entry lives for \<open>ttl\<close> seconds
  from the moment it is stored. A call that raises stores nothing.
\<close>

definition memoize ::
  "real \<Rightarrow> real \<Rightarrow> string list \<Rightarrow>
   ('f state \<Rightarrow> (error + 'f TradingPair list) \<times> 'f state) \<Rightarrow>
   'f state \<Rightarrow> (error + 'f TradingPair list) \<times> 'f state" where
  "memoize expire now key f st =
     (let miss =
            (case f st of
               (Inl e, st') \<Rightarrow> (Inl e, st')
             | (Inr v, st') \<Rightarrow>
                 (Inr v, if expire > 0
                         then st'\<lparr>cache := (cache st')(key \<mapsto> (now + expire, v))\<rparr>
                         else st'))
      in case cache st key of
           None \<Rightarrow> miss
         | Some (expire_time, v) \<Rightarrow> if expire_time > now then (Inr v, st) else miss)"

section \<open>Price client\<close>

text \<open>
  The operations of \<^verbatim>\<open>CryptoAPITrading\<close>, each taking the library, the client, the
  network, the wall-clock time of the call and the shared state, and returning the
  result (or the exception) with the new state.
\<close>

definition get_account ::
  "'f pylib \<Rightarrow> client \<Rightarrow> ('f http_call \<Rightarrow> error + 'f response) \<Rightarrow> real \<Rightarrow>
   'f state \<Rightarrow> (error + 'f json) \<times> 'f state" where
  "get_account lib c net now =
     make_api_request lib c net now ''GET'' ''/api/v1/crypto/trading/accounts/'' []"

definition fetch_trading_pairs ::
  "'f pylib \<Rightarrow> client \<Rightarrow> ('f http_call \<Rightarrow> error + 'f response) \<Rightarrow> real \<Rightarrow>
   string list \<Rightarrow> 'f state \<Rightarrow> (error + 'f TradingPair list) \<times> 'f state" where
  "fetch_trading_pairs lib c net now symbols =
     (let query_params = get_query_params ''symbol'' symbols;
          path = ''/api/v1/crypto/trading/trading_pairs/'' @ query_params
      in sbind (make_api_request lib c net now ''GET'' path [])
           (\<lambda>resp. lift (bind (subscript resp ''results'')
              (\<lambda>r. bind (iterate r) (mapM (TradingPair_from_dict lib))))))"

definition get_trading_pairs ::
  "'f pylib \<Rightarrow> client \<Rightarrow> ('f http_call \<Rightarrow> error + 'f response) \<Rightarrow> real \<Rightarrow>
   string list \<Rightarrow> 'f state \<Rightarrow> (error + 'f TradingPair list) \<times> 'f state" where
  "get_trading_pairs lib c net now symbols =
     memoize 86400 now symbols (fetch_trading_pairs lib c net now symbols)"

definition get_holdings ::
  "'f pylib \<Rightarrow> client \<Rightarrow> ('f http_call \<Rightarrow> error + 'f response) \<Rightarrow> real \<Rightarrow>
   string list \<Rightarrow> 'f state \<Rightarrow> (error + 'f json) \<times> 'f state" where
  "get_holdings lib c net now asset_codes =
     (let query_params = get_query_params ''asset_code'' asset_codes;
          path = ''/api/v1/crypto/trading/holdings/'' @ query_params
      in sbind (make_api_request lib c net now ''GET'' path [])
           (\<lambda>resp. lift (dict_get resp ''results'')))"

definition get_best_bid_ask ::
  "'f pylib \<Rightarrow> client \<Rightarrow> ('f http_call \<Rightarrow> error + 'f response) \<Rightarrow> real \<Rightarrow>
   string list \<Rightarrow> 'f state \<Rightarrow> (error + 'f json) \<times> 'f state" where
  "get_best_bid_ask lib c net now symbols =
     (let query_params = get_query_params ''symbol'' symbols;
          path = ''/api/v1/crypto/marketdata/best_bid_ask/'' @ query_params
      in sbind (make_api_request lib c net now ''GET'' path [])
           (\<lambda>resp. lift (dict_get resp ''results'')))"

definition get_estimated_price ::
  "'f pylib \<Rightarrow> client \<Rightarrow> ('f http_call \<Rightarrow> error + 'f response) \<Rightarrow> real \<Rightarrow>
   string \<Rightarrow> string \<Rightarrow> string \<Rightarrow> 'f state \<Rightarrow>
   (error + 'f EstimatedOrderPrice list) \<times> 'f state" where
  "get_estimated_price lib c net now symb sd qty =
     (let path = ''/api/v1/crypto/marketdata/estimated_price/?symbol='' @ symb
                 @ ''&side='' @ sd @ ''&quantity='' @ qty
      in sbind (make_api_request lib c net now ''GET'' path [])
           (\<lambda>resp. lift (bind (dict_get resp ''results'')
              (\<lambda>r. bind (iterate r) (mapM (EstimatedOrderPrice_from_dict lib))))))"

definition get_estimated_bid_price ::
  "'f pylib \<Rightarrow> client \<Rightarrow> ('f http_call \<Rightarrow> error + 'f response) \<Rightarrow> real \<Rightarrow>
   string \<Rightarrow> string \<Rightarrow> 'f state \<Rightarrow> (error + 'f EstimatedOrderPrice) \<times> 'f state" where
  "get_estimated_bid_price lib c net now symb qty =
     sbind (get_estimated_price lib c net now symb ''bid'' qty) (\<lambda>xs. lift (first xs))"

definition get_estimated_ask_price ::
  "'f pylib \<Rightarrow> client \<Rightarrow> ('f http_call \<Rightarrow> error + 'f response) \<Rightarrow> real \<Rightarrow>
   string \<Rightarrow> string \<Rightarrow> 'f state \<Rightarrow> (error + 'f EstimatedOrderPrice) \<times> 'f state" where
  "get_estimated_ask_price lib c net now symb qty =
     sbind (get_estimated_price lib c net now symb ''ask'' qty) (\<lambda>xs. lift (first xs))"

definition get_quantity_of_crypto ::
  "'f pylib \<Rightarrow> client \<Rightarrow> ('f http_call \<Rightarrow> error + 'f response) \<Rightarrow> real \<Rightarrow>
   string \<Rightarrow> 'f \<Rightarrow> 'f state \<Rightarrow> (error + 'f) \<times> 'f state" where
  "get_quantity_of_crypto lib c net now symb usd =
     sbind (sbind (get_trading_pairs lib c net now [symb]) (\<lambda>tps. lift (first tps)))
       (\<lambda>tp. sbind (get_estimated_bid_price lib c net now symb
                       (float_str lib (min_order_size tp)))
          (\<lambda>r. lift (truediv lib usd (price r))))"

definition get_current_estimated_price ::
  "'f pylib \<Rightarrow> client \<Rightarrow> ('f http_call \<Rightarrow> error + 'f response) \<Rightarrow> real \<Rightarrow>
   string \<Rightarrow> 'f state \<Rightarrow> (error + 'f EstimatedOrderPriceHistoryEntry) \<times> 'f state" where
  "get_current_estimated_price lib c net now symb =
     sbind (sbind (get_trading_pairs lib c net now [symb]) (\<lambda>tps. lift (first tps)))
       (\<lambda>tp. sbind (get_estimated_price lib c net now symb ''both''
                       (float_str lib (min_order_size tp)))
          (\<lambda>both. lift
             (bind (first (filter (\<lambda>x. side x = ''bid'') both)) (\<lambda>b.
              bind (first (filter (\<lambda>x. side x = ''ask'') both)) (\<lambda>a.
                Inr (EstimatedOrderPriceHistoryEntry_from_objs b a))))))"

definition place_order ::
  "'f pylib \<Rightarrow> client \<Rightarrow> ('f http_call \<Rightarrow> error + 'f response) \<Rightarrow> real \<Rightarrow>
   string \<Rightarrow> string \<Rightarrow> string \<Rightarrow> string \<Rightarrow> (string \<times> string) list \<Rightarrow>
   'f state \<Rightarrow> (error + 'f json) \<times> 'f state" where
  "place_order lib c net now client_order_id sd order_type symb order_config =
     (let body = JObj [(''client_order_id'', JStr client_order_id),
                       (''side'', JStr sd),
                       (''type'', JStr order_type),
                       (''symbol'', JStr symb),
                       (order_type @ ''_order_config'',
                          JObj (map (\<lambda>kv. (fst kv, JStr (snd kv))) order_config))]
      in make_api_request lib c net now ''POST'' ''/api/v1/crypto/trading/orders/''
           (dumps lib body))"

definition cancel_order ::
  "'f pylib \<Rightarrow> client \<Rightarrow> ('f http_call \<Rightarrow> error + 'f response) \<Rightarrow> real \<Rightarrow>
   string \<Rightarrow> 'f state \<Rightarrow> (error + 'f json) \<times> 'f state" where
  "cancel_order lib c net now order_id =
     make_api_request lib c net now ''POST''
       (''/api/v1/crypto/trading/orders/'' @ order_id @ ''/cancel/'') []"

definition get_order ::
  "'f pylib \<Rightarrow> client \<Rightarrow> ('f http_call \<Rightarrow> error + 'f response) \<Rightarrow> real \<Rightarrow>
   string \<Rightarrow> 'f state \<Rightarrow> (error + 'f json) \<times> 'f state" where
  "get_order lib c net now order_id =
     make_api_request lib c net now ''GET''
       (''/api/v1/crypto/trading/orders/'' @ order_id @ ''/'') []"

definition get_orders ::
  "'f pylib \<Rightarrow> client \<Rightarrow> ('f http_call \<Rightarrow> error + 'f response) \<Rightarrow> real \<Rightarrow>
   'f state \<Rightarrow> (error + 'f json) \<times> 'f state" where
  "get_orders lib c net now =
     make_api_request lib c net now ''GET'' ''/api/v1/crypto/trading/orders/'' []"

section \<open>Sample data\<close>

text \<open>
  The payloads quoted in the comments of \<^verbatim>\<open>robinhood.py\<close>, and a small instance of the
  library on which the definitions can be evaluated: rationals stand for floats (no
  rounding), \<open>fromisoformat\<close> knows the two timestamps of the samples, signing and
  encoding are stand-ins.
\<close>

definition sample_trading_pair :: "'f json" where
  "sample_trading_pair =
     JObj [(''asset_code'', JStr ''BTC''),
           (''asset_increment'', JStr ''0.000000010000000000''),
           (''max_order_size'', JStr ''20.0000000000000000''),
           (''min_order_size'', JStr ''0.000001000000000000''),
           (''quote_code'', JStr ''USD''),
           (''quote_increment'', JStr ''0.010000000000000000''),
           (''status'', JStr ''tradable''),
           (''symbol'', JStr ''BTC-USD'')]"

definition scenario_trading_pair :: "'f json" where
  "scenario_trading_pair =
     JObj [(''asset_code'', JStr ''BTC''),
           (''asset_increment'', JStr ''0.00000001''),
           (''max_order_size'', JStr ''20''),
           (''min_order_size'', JStr ''0.000001''),
           (''quote_code'', JStr ''USD''),
           (''quote_increment'', JStr ''0.01''),
           (''status'', JStr ''tradable''),
           (''symbol'', JStr ''BTC-USD'')]"

definition shib_trading_pair :: "'f json" where
  "shib_trading_pair =
     JObj [(''asset_code'', JStr ''SHIB''),
           (''asset_increment'', JStr ''1.000000000000000000''),
           (''max_order_size'', JStr ''4000000000.0000000000000000''),
           (''min_order_size'', JStr ''800.000000000000000000''),
           (''quote_code'', JStr ''USD''),
           (''quote_increment'', JStr ''0.000000010000000000''),
           (''status'', JStr ''tradable''),
           (''symbol'', JStr ''SHIB-USD'')]"

definition sample_ask :: "string \<Rightarrow> 'f json" where
  "sample_ask ts =
     JObj [(''symbol'', JStr ''SHIB-USD''), (''price'', JStr ''0.00001945''),
           (''quantity'', JStr ''800''), (''side'', JStr ''ask''),
           (''ask_inclusive_of_buy_spread'', JStr ''0.00001955''),
           (''buy_spread'', JStr ''0.00514139''),
           (''timestamp'', JStr ts)]"

definition sample_bid :: "string \<Rightarrow> 'f json" where
  "sample_bid ts =
     JObj [(''symbol'', JStr ''SHIB-USD''), (''price'', JStr ''0.00001943''),
           (''quantity'', JStr ''800''), (''side'', JStr ''bid''),
           (''bid_inclusive_of_sell_spread'', JStr ''0.00001933''),
           (''sell_spread'', JStr ''0.00514668''),
           (''timestamp'', JStr ts)]"

definition ts_ask :: string where
  "ts_ask = ''2024-11-09T06:16:50.104485455-05:00''"

definition ts_bid :: string where
  "ts_bid = ''2024-11-09T06:15:05.54552805-05:00''"

definition dt_ask :: datetime where
  "dt_ask = \<lparr>local_us = 63866729810104485, utcoffset = Some (- 18000000000)\<rparr>"

definition dt_bid :: datetime where
  "dt_bid = \<lparr>local_us = 63866729705545528, utcoffset = Some (- 18000000000)\<rparr>"

definition sample_lib :: "rat pylib" where
  "sample_lib =
     \<lparr>round64 = (\<lambda>neg q. if neg then - q else q),
      float_other = (\<lambda>x. case x of
           JInt i \<Rightarrow> Inr (of_int i)
         | JFloat q \<Rightarrow> Inr q
         | JStr s \<Rightarrow> Inl (ValueError ''could not convert string to float'')
         | _ \<Rightarrow> Inl TypeError),
      float_str = (\<lambda>q. if q = 800 then ''800.0'' else ''1e-06''),
      truediv = (\<lambda>a b. if b = 0 then Inl ZeroDivisionError else Inr (a / b)),
      fromisoformat = (\<lambda>x. case x of
           JStr s \<Rightarrow>
             if s = ts_ask then Inr dt_ask
             else if s = ts_bid then Inr dt_bid
             else Inl (ValueError ''Invalid isoformat string'')
         | _ \<Rightarrow> Inl TypeError),
      str_other = (\<lambda>x. Inl ValidationError),
      sign = (\<lambda>m. rev m),
      b64encode = (\<lambda>s. s),
      loads_other = (\<lambda>s. if s = ''{}'' then Inr (JObj []) else Inl JSONDecodeError),
      dumps = (\<lambda>j. ''{}'')\<rparr>"

definition sample_client :: client where
  "sample_client = \<lparr>api_key = ''rh-api-key'', base_url = ''https://trading.robinhood.com''\<rparr>"

definition init_state :: "'f state" where
  "init_state = \<lparr>cache = Map.empty, sent = []\<rparr>"

text \<open>
  Three networks: one that answers every call with HTTP 503, one whose connection
  always fails, and one that serves the SHIB-USD trading pair and a given list of
  quotes at the pair's minimum order size.
\<close>

definition net_503 :: "'f http_call \<Rightarrow> error + 'f response" where
  "net_503 call =
     Inr \<lparr>status_code = 503, text_body = ''Service Unavailable'',
          json_result = Inl JSONDecodeError\<rparr>"

definition net_down :: "'f http_call \<Rightarrow> error + 'f response" where
  "net_down call = Inl (RequestException ''ConnectionError'')"

definition ok_response :: "'f json \<Rightarrow> 'f response" where
  "ok_response j = \<lparr>status_code = 200, text_body = [], json_result = Inr j\<rparr>"

definition net_quotes :: "'f json list \<Rightarrow> 'f http_call \<Rightarrow> error + 'f response" where
  "net_quotes quotes call =
     (if url call = ''https://trading.robinhood.com/api/v1/crypto/trading/trading_pairs/?symbol=SHIB-USD''
      then Inr (ok_response (JObj [(''results'', JArr [shib_trading_pair])]))
      else if url call \<in> set
        [''https://trading.robinhood.com/api/v1/crypto/marketdata/estimated_price/?symbol=SHIB-USD&side=both&quantity=800.0'',
         ''https://trading.robinhood.com/api/v1/crypto/marketdata/estimated_price/?symbol=SHIB-USD&side=bid&quantity=800.0'',
         ''https://trading.robinhood.com/api/v1/crypto/marketdata/estimated_price/?symbol=SHIB-USD&side=ask&quantity=800.0'']
      then Inr (ok_response (JObj [(''results'', JArr quotes)]))
      else Inr \<lparr>status_code = 404, text_body = ''Not Found'', json_result = Inl JSONDecodeError\<rparr>)"

definition dt_bid_utc :: datetime where
  "dt_bid_utc = \<lparr>local_us = 63866747705545528, utcoffset = Some 0\<rparr>"

definition sample_bid_price :: "rat EstimatedOrderPrice" where
  "sample_bid_price =
     \<lparr>symbol = ''SHIB-USD'', price = 1943 / 100000000, quantity = 800, side = ''bid'',
      timestamp = dt_bid, price_including_spread = 1933 / 100000000,
      spread = 514668 / 100000000\<rparr>"

definition sample_ask_price :: "datetime \<Rightarrow> rat EstimatedOrderPrice" where
  "sample_ask_price ts =
     \<lparr>symbol = ''SHIB-USD'', price = 1945 / 100000000, quantity = 800, side = ''ask'',
      timestamp = ts, price_including_spread = 1955 / 100000000,
      spread = 514139 / 100000000\<rparr>"

definition shib_pair :: "rat TradingPair" where
  "shib_pair =
     \<lparr>asset_code = ''SHIB'', asset_increment = 1, max_order_size = 4000000000,
      min_order_size = 800, quote_code = ''USD'', quote_increment = 1 / 100000000,
      status = ''tradable'', tp_symbol = ''SHIB-USD''\<rparr>"

section \<open>Basic facts\<close>

lemma bind_Inr_iff: "bind m f = Inr y \<longleftrightarrow> (\<exists>v. m = Inr v \<and> f v = Inr y)"
  by (cases m) (simp_all add: bind_def)

lemma bind_Inl_iff: "bind m f = Inl e \<longleftrightarrow> m = Inl e \<or> (\<exists>v. m = Inr v \<and> f v = Inl e)"
  by (cases m) (simp_all add: bind_def)

lemma bind_Inr [simp]: "bind (Inr v) f = f v"
  by (simp add: bind_def)

lemma bind_Inl [simp]: "bind (Inl e) f = Inl e"
  by (simp add: bind_def)

lemma dt_eq_refl: "dt_eq a a"
  by (cases "utcoffset a") (simp_all add: dt_eq_def)

lemma str_nat_digit: "n < 10 \<Longrightarrow> str_nat n = [''0123456789'' ! n]"
  by (subst str_nat.simps) simp

lemma str_nat_step:
  "10 \<le> n \<Longrightarrow> str_nat n = str_nat (n div 10) @ [''0123456789'' ! (n mod 10)]"
  by (subst str_nat.simps) simp

lemmas decimal_defs = decimal_literal_def unsigned_decimal_def digit_val_def

lemma py_float_decimal:
  "decimal_literal s = Some (neg, q) \<Longrightarrow> py_float lib (JStr s) = Inr (round64 lib neg q)"
  by (simp add: py_float_def)

lemma sample_bid_parses:
  "EstimatedOrderPrice_from_dict sample_lib (sample_bid ts_bid) = Inr sample_bid_price"
  by (simp add: EstimatedOrderPrice_from_dict_def sample_lib_def sample_bid_def
      sample_bid_price_def subscript_def py_float_def str_field_def decimal_defs
      ts_bid_def ts_ask_def)

lemma sample_ask_parses:
  "EstimatedOrderPrice_from_dict sample_lib (sample_ask ts_ask) = Inr (sample_ask_price dt_ask)"
  by (simp add: EstimatedOrderPrice_from_dict_def sample_lib_def sample_ask_def
      sample_ask_price_def subscript_def py_float_def str_field_def decimal_defs ts_ask_def)

lemma sample_ask_parses_at_bid:
  "EstimatedOrderPrice_from_dict sample_lib (sample_ask ts_bid) = Inr (sample_ask_price dt_bid)"
  by (simp add: EstimatedOrderPrice_from_dict_def sample_lib_def sample_ask_def
      sample_ask_price_def subscript_def py_float_def str_field_def decimal_defs
      ts_ask_def ts_bid_def)

section \<open>Domain model constructors\<close>

lemma from_objs_mismatch:
  "\<not> dt_eq (timestamp b) (timestamp a) \<Longrightarrow>
   EstimatedBidAndAskPrice_from_objs b a = Inl (ValueError ''Bid and ask timestamps must match'')"
  by (simp add: EstimatedBidAndAskPrice_from_objs_def)

lemma from_objs_match:
  "dt_eq (timestamp b) (timestamp a) \<Longrightarrow>
   EstimatedBidAndAskPrice_from_objs b a = Inr \<lparr>bid = b, ask = a, ba_timestamp = timestamp b\<rparr>"
  by (simp add: EstimatedBidAndAskPrice_from_objs_def)

lemma from_dict_via_objs:
  "EstimatedBidAndAskPrice_from_dict lib data =
     bind (bind (subscript data ''bid'') (EstimatedOrderPrice_from_dict lib)) (\<lambda>b.
     bind (bind (subscript data ''ask'') (EstimatedOrderPrice_from_dict lib)) (\<lambda>a.
       EstimatedBidAndAskPrice_from_objs b a))"
  by (simp add: EstimatedBidAndAskPrice_from_dict_def EstimatedBidAndAskPrice_from_objs_def)

text \<open>
  Claim C4. Building an \<^verbatim>\<open>EstimatedBidAndAskPrice\<close> from a bid and an ask fails with
  \<^verbatim>\<open>ValueError("Bid and ask timestamps must match")\<close> (the spec's
  TimestampMismatchError) when the two timestamps differ, in Python's comparison of
  datetimes; when they are equal it succeeds, keeps both sides, and its timestamp is the
  bid's, hence equal to the ask's as well. \<^verbatim>\<open>from_dict\<close> parses the two sides and then
  does the same.
\<close>

theorem bid_ask_timestamps_must_match:
  "(\<not> dt_eq (timestamp b) (timestamp a) \<longrightarrow>
      EstimatedBidAndAskPrice_from_objs b a =
        Inl (ValueError ''Bid and ask timestamps must match'')) \<and>
   (dt_eq (timestamp b) (timestamp a) \<longrightarrow>
      (\<exists>r. EstimatedBidAndAskPrice_from_objs b a = Inr r \<and> bid r = b \<and> ask r = a \<and>
           ba_timestamp r = timestamp b \<and> dt_eq (ba_timestamp r) (timestamp a))) \<and>
   (bind (subscript data ''bid'') (EstimatedOrderPrice_from_dict lib) = Inr b \<and>
    bind (subscript data ''ask'') (EstimatedOrderPrice_from_dict lib) = Inr a \<longrightarrow>
      EstimatedBidAndAskPrice_from_dict lib data = EstimatedBidAndAskPrice_from_objs b a)"
  by (simp add: from_objs_mismatch from_objs_match from_dict_via_objs)

theorem bid_ask_timestamps_must_match_witness:
  "\<not> dt_eq (timestamp sample_bid_price) (timestamp (sample_ask_price dt_ask)) \<and>
   EstimatedBidAndAskPrice_from_objs sample_bid_price (sample_ask_price dt_ask) =
     Inl (ValueError ''Bid and ask timestamps must match'') \<and>
   dt_eq (timestamp sample_bid_price) (timestamp (sample_ask_price dt_bid_utc)) \<and>
   (\<exists>r. EstimatedBidAndAskPrice_from_objs sample_bid_price (sample_ask_price dt_bid_utc) = Inr r \<and>
        ba_timestamp r = dt_bid \<and> dt_eq (ba_timestamp r) dt_bid_utc) \<and>
   EstimatedBidAndAskPrice_from_dict sample_lib
       (JObj [(''bid'', sample_bid ts_bid), (''ask'', sample_ask ts_ask)]) =
     Inl (ValueError ''Bid and ask timestamps must match'')"
proof -
  have mismatch: "\<not> dt_eq (timestamp sample_bid_price) (timestamp (sample_ask_price dt_ask))"
    by (simp add: sample_bid_price_def sample_ask_price_def dt_eq_def dt_bid_def dt_ask_def)
  have match: "dt_eq (timestamp sample_bid_price) (timestamp (sample_ask_price dt_bid_utc))"
    by (simp add: sample_bid_price_def sample_ask_price_def dt_eq_def dt_bid_def dt_bid_utc_def)
  have sides:
    "bind (subscript (JObj [(''bid'', sample_bid ts_bid), (''ask'', sample_ask ts_ask)]) ''bid'')
       (EstimatedOrderPrice_from_dict sample_lib) = Inr sample_bid_price \<and>
     bind (subscript (JObj [(''bid'', sample_bid ts_bid), (''ask'', sample_ask ts_ask)]) ''ask'')
       (EstimatedOrderPrice_from_dict sample_lib) = Inr (sample_ask_price dt_ask)"
    by (simp add: subscript_def sample_bid_parses sample_ask_parses)
  have ts: "timestamp sample_bid_price = dt_bid" "timestamp (sample_ask_price dt_bid_utc) = dt_bid_utc"
    by (simp_all add: sample_bid_price_def sample_ask_price_def)
  show ?thesis
    using mismatch match sides ts
      bid_ask_timestamps_must_match
        [of sample_bid_price "sample_ask_price dt_ask"
            "JObj [(''bid'', sample_bid ts_bid), (''ask'', sample_ask ts_ask)]" sample_lib]
      bid_ask_timestamps_must_match
        [of sample_bid_price "sample_ask_price dt_bid_utc" JNull sample_lib]
    by auto
qed

text \<open>
  Claim C5. Whenever \<^verbatim>\<open>EstimatedOrderPrice.from_dict\<close> succeeds, the price including
  spread and the spread are the floats of the wire fields chosen by the side: for
  \<^verbatim>\<open>side == "bid"\<close>, \<^verbatim>\<open>bid_inclusive_of_sell_spread\<close> and \<^verbatim>\<open>sell_spread\<close>; for
  \<^verbatim>\<open>side == "ask"\<close>, \<^verbatim>\<open>ask_inclusive_of_buy_spread\<close> and \<^verbatim>\<open>buy_spread\<close>.
\<close>

theorem side_selects_spread_fields:
  assumes "EstimatedOrderPrice_from_dict lib data = Inr e"
  shows "(subscript data ''side'' = Inr (JStr ''bid'') \<longrightarrow>
            bind (subscript data ''bid_inclusive_of_sell_spread'') (py_float lib) =
              Inr (price_including_spread e) \<and>
            bind (subscript data ''sell_spread'') (py_float lib) = Inr (spread e)) \<and>
         (subscript data ''side'' = Inr (JStr ''ask'') \<longrightarrow>
            bind (subscript data ''ask_inclusive_of_buy_spread'') (py_float lib) =
              Inr (price_including_spread e) \<and>
            bind (subscript data ''buy_spread'') (py_float lib) = Inr (spread e))"
  using assms
  by (auto simp: EstimatedOrderPrice_from_dict_def Let_def bind_Inr_iff)

theorem side_selects_spread_fields_witness:
  "EstimatedOrderPrice_from_dict sample_lib (sample_bid ts_bid) = Inr sample_bid_price \<and>
   subscript (sample_bid ts_bid :: rat json) ''side'' = Inr (JStr ''bid'') \<and>
   bind (subscript (sample_bid ts_bid) ''bid_inclusive_of_sell_spread'') (py_float sample_lib) =
     Inr (1933 / 100000000) \<and>
   bind (subscript (sample_bid ts_bid) ''sell_spread'') (py_float sample_lib) =
     Inr (514668 / 100000000) \<and>
   EstimatedOrderPrice_from_dict sample_lib (sample_ask ts_ask) = Inr (sample_ask_price dt_ask) \<and>
   subscript (sample_ask ts_ask :: rat json) ''side'' = Inr (JStr ''ask'') \<and>
   bind (subscript (sample_ask ts_ask) ''ask_inclusive_of_buy_spread'') (py_float sample_lib) =
     Inr (1955 / 100000000) \<and>
   bind (subscript (sample_ask ts_ask) ''buy_spread'') (py_float sample_lib) =
     Inr (514139 / 100000000)"
proof -
  have b: "subscript (sample_bid ts_bid :: rat json) ''side'' = Inr (JStr ''bid'')"
    by (simp add: subscript_def sample_bid_def)
  have a: "subscript (sample_ask ts_ask :: rat json) ''side'' = Inr (JStr ''ask'')"
    by (simp add: subscript_def sample_ask_def)
  have fields:
    "price_including_spread sample_bid_price = 1933 / 100000000"
    "spread sample_bid_price = 514668 / 100000000"
    "price_including_spread (sample_ask_price dt_ask) = 1955 / 100000000"
    "spread (sample_ask_price dt_ask) = 514139 / 100000000"
    by (simp_all add: sample_bid_price_def sample_ask_price_def)
  show ?thesis
    using side_selects_spread_fields [OF sample_bid_parses]
      side_selects_spread_fields [OF sample_ask_parses]
      a b fields sample_bid_parses sample_ask_parses
    by simp
qed

lemma tp_success_keys:
  assumes "TradingPair_from_dict lib data = Inr tp"
  shows "\<forall>k \<in> set [''asset_code'', ''asset_increment'', ''max_order_size'', ''min_order_size'',
                    ''quote_code'', ''quote_increment'', ''status'', ''symbol'']. \<exists>v. subscript data k = Inr v"
  using assms by (auto simp: TradingPair_from_dict_def bind_Inr_iff)

lemma tp_absent_fails:
  assumes "k \<in> set [''asset_code'', ''asset_increment'', ''max_order_size'', ''min_order_size'',
                    ''quote_code'', ''quote_increment'', ''status'', ''symbol'']"
    and "map_of kvs k = None"
  shows "\<exists>e. TradingPair_from_dict lib (JObj kvs) = Inl e"
proof (cases "TradingPair_from_dict lib (JObj kvs)")
  case (Inl e) then show ?thesis by blast
next
  case (Inr tp)
  from tp_success_keys [OF Inr] assms(1) obtain v where "subscript (JObj kvs) k = Inr v"
    by blast
  with assms(2) show ?thesis by (simp add: subscript_def)
qed

lemma tp_success:
  assumes "map_of kvs ''asset_code'' = Some (JStr ac)"
    and "map_of kvs ''asset_increment'' = Some v1" and "py_float lib v1 = Inr ai"
    and "map_of kvs ''max_order_size'' = Some v2" and "py_float lib v2 = Inr mx"
    and "map_of kvs ''min_order_size'' = Some v3" and "py_float lib v3 = Inr mn"
    and "map_of kvs ''quote_code'' = Some (JStr qc)"
    and "map_of kvs ''quote_increment'' = Some v4" and "py_float lib v4 = Inr qi"
    and "map_of kvs ''status'' = Some (JStr st)"
    and "map_of kvs ''symbol'' = Some (JStr sy)"
  shows "TradingPair_from_dict lib (JObj kvs) =
     Inr \<lparr>asset_code = ac, asset_increment = ai, max_order_size = mx,
            min_order_size = mn, quote_code = qc, quote_increment = qi,
            status = st, tp_symbol = sy\<rparr>"
  using assms by (simp add: TradingPair_from_dict_def subscript_def str_field_def)

lemma tp_keyerror:
  assumes num: "\<forall>k \<in> set [''asset_increment'', ''max_order_size'', ''min_order_size'', ''quote_increment''].
             \<forall>v. map_of kvs k = Some v \<longrightarrow> (\<exists>x. py_float lib v = Inr x)"
    and absent: "k \<in> set [''asset_code'', ''asset_increment'', ''max_order_size'', ''min_order_size'',
                    ''quote_code'', ''quote_increment'', ''status'', ''symbol'']" "map_of kvs k = None"
  shows "\<exists>k'. map_of kvs k' = None \<and> TradingPair_from_dict lib (JObj kvs) = Inl (KeyError k')"
proof -
  show ?thesis
  proof (cases "map_of kvs ''asset_code''")
    case None
    with refl have "TradingPair_from_dict lib (JObj kvs) = Inl (KeyError ''asset_code'')"
      by (simp add: TradingPair_from_dict_def subscript_def)
    with None show ?thesis by blast
  next
    case k0: (Some v0)
    show ?thesis
    proof (cases "map_of kvs ''asset_increment''")
      case None
      with k0 have "TradingPair_from_dict lib (JObj kvs) = Inl (KeyError ''asset_increment'')"
        by (simp add: TradingPair_from_dict_def subscript_def)
      with None show ?thesis by blast
    next
      case k1: (Some v1)
      from num k1 obtain x1 where f1: "py_float lib v1 = Inr x1" by auto
      show ?thesis
      proof (cases "map_of kvs ''max_order_size''")
        case None
        with k0 k1 f1 have "TradingPair_from_dict lib (JObj kvs) = Inl (KeyError ''max_order_size'')"
          by (simp add: TradingPair_from_dict_def subscript_def)
        with None show ?thesis by blast
      next
        case k2: (Some v2)
        from num k2 obtain x2 where f2: "py_float lib v2 = Inr x2" by auto
        show ?thesis
        proof (cases "map_of kvs ''min_order_size''")
          case None
          with k0 k1 f1 k2 f2 have "TradingPair_from_dict lib (JObj kvs) = Inl (KeyError ''min_order_size'')"
            by (simp add: TradingPair_from_dict_def subscript_def)
          with None show ?thesis by blast
        next
          case k3: (Some v3)
          from num k3 obtain x3 where f3: "py_float lib v3 = Inr x3" by auto
          show ?thesis
          proof (cases "map_of kvs ''quote_code''")
            case None
            with k0 k1 f1 k2 f2 k3 f3 have "TradingPair_from_dict lib (JObj kvs) = Inl (KeyError ''quote_code'')"
              by (simp add: TradingPair_from_dict_def subscript_def)
            with None show ?thesis by blast
          next
            case k4: (Some v4)
            show ?thesis
            proof (cases "map_of kvs ''quote_increment''")
              case None
              with k0 k1 f1 k2 f2 k3 f3 k4 have "TradingPair_from_dict lib (JObj kvs) = Inl (KeyError ''quote_increment'')"
                by (simp add: TradingPair_from_dict_def subscript_def)
              with None show ?thesis by blast
            next
              case k5: (Some v5)
              from num k5 obtain x5 where f5: "py_float lib v5 = Inr x5" by auto
              show ?thesis
              proof (cases "map_of kvs ''status''")
                case None
                with k0 k1 f1 k2 f2 k3 f3 k4 k5 f5 have "TradingPair_from_dict lib (JObj kvs) = Inl (KeyError ''status'')"
                  by (simp add: TradingPair_from_dict_def subscript_def)
                with None show ?thesis by blast
              next
                case k6: (Some v6)
                show ?thesis
                proof (cases "map_of kvs ''symbol''")
                  case None
                  with k0 k1 f1 k2 f2 k3 f3 k4 k5 f5 k6 have "TradingPair_from_dict lib (JObj kvs) = Inl (KeyError ''symbol'')"
                    by (simp add: TradingPair_from_dict_def subscript_def)
                  with None show ?thesis by blast
                next
                  case k7: (Some v7)
                  from absent k0 k1 k2 k3 k4 k5 k6 k7 show ?thesis by auto
                qed
              qed
            qed
          qed
        qed
      qed
    qed
  qed
qed

lemma sample_tp:
  "TradingPair_from_dict lib sample_trading_pair =
     Inr \<lparr>asset_code = ''BTC'', asset_increment = round64 lib False (1 / 100000000),
          max_order_size = round64 lib False 20,
          min_order_size = round64 lib False (1 / 1000000), quote_code = ''USD'',
          quote_increment = round64 lib False (1 / 100),
          status = ''tradable'', tp_symbol = ''BTC-USD''\<rparr>"
  by (simp add: TradingPair_from_dict_def sample_trading_pair_def subscript_def py_float_def
      str_field_def decimal_defs)

lemma scenario_tp:
  "TradingPair_from_dict lib scenario_trading_pair =
     Inr \<lparr>asset_code = ''BTC'', asset_increment = round64 lib False (1 / 100000000),
          max_order_size = round64 lib False 20,
          min_order_size = round64 lib False (1 / 1000000), quote_code = ''USD'',
          quote_increment = round64 lib False (1 / 100),
          status = ''tradable'', tp_symbol = ''BTC-USD''\<rparr>"
  by (simp add: TradingPair_from_dict_def scenario_trading_pair_def subscript_def py_float_def
      str_field_def decimal_defs)

text \<open>
  Claim C9. \<^verbatim>\<open>TradingPair.from_dict\<close> turns the numeric fields into floats with
  \<^verbatim>\<open>float\<close>, which on a decimal string is the rounded value of the decimal, and keeps
  the string fields; it fails when one of the eight fields is absent, and the failure
  is the \<^verbatim>\<open>KeyError\<close> of an absent field (the spec's MalformedResponseError) when the
  numeric fields that are present convert. The payload in the source's comment and the
  payload of the spec's scenario both give \<^verbatim>\<open>min_order_size == 0.000001\<close>, the float
  nearest to \<open>1/1000000\<close>, and \<^verbatim>\<open>symbol == "BTC-USD"\<close>.
\<close>

theorem TradingPair_from_dict_coerces:
  "(map_of kvs ''asset_code'' = Some (JStr ac) \<and>
    map_of kvs ''asset_increment'' = Some v1 \<and> py_float lib v1 = Inr ai \<and>
    map_of kvs ''max_order_size'' = Some v2 \<and> py_float lib v2 = Inr mx \<and>
    map_of kvs ''min_order_size'' = Some v3 \<and> py_float lib v3 = Inr mn \<and>
    map_of kvs ''quote_code'' = Some (JStr qc) \<and>
    map_of kvs ''quote_increment'' = Some v4 \<and> py_float lib v4 = Inr qi \<and>
    map_of kvs ''status'' = Some (JStr st) \<and>
    map_of kvs ''symbol'' = Some (JStr sy) \<longrightarrow>
      TradingPair_from_dict lib (JObj kvs) =
        Inr \<lparr>asset_code = ac, asset_increment = ai, max_order_size = mx,
             min_order_size = mn, quote_code = qc, quote_increment = qi,
             status = st, tp_symbol = sy\<rparr>) \<and>
   (decimal_literal s = Some (neg, q) \<longrightarrow> py_float lib (JStr s) = Inr (round64 lib neg q)) \<and>
   (k \<in> set [''asset_code'', ''asset_increment'', ''max_order_size'', ''min_order_size'',
              ''quote_code'', ''quote_increment'', ''status'', ''symbol''] \<and>
    map_of kvs' k = None \<longrightarrow>
      (\<exists>e. TradingPair_from_dict lib (JObj kvs') = Inl e) \<and>
      ((\<forall>n \<in> set [''asset_increment'', ''max_order_size'', ''min_order_size'',
                    ''quote_increment''].
          \<forall>v. map_of kvs' n = Some v \<longrightarrow> (\<exists>x. py_float lib v = Inr x)) \<longrightarrow>
       (\<exists>k'. map_of kvs' k' = None \<and>
             TradingPair_from_dict lib (JObj kvs') = Inl (KeyError k')))) \<and>
   TradingPair_from_dict lib sample_trading_pair =
     Inr \<lparr>asset_code = ''BTC'', asset_increment = round64 lib False (1 / 100000000),
          max_order_size = round64 lib False 20,
          min_order_size = round64 lib False (1 / 1000000), quote_code = ''USD'',
          quote_increment = round64 lib False (1 / 100),
          status = ''tradable'', tp_symbol = ''BTC-USD''\<rparr> \<and>
   TradingPair_from_dict lib scenario_trading_pair =
     Inr \<lparr>asset_code = ''BTC'', asset_increment = round64 lib False (1 / 100000000),
          max_order_size = round64 lib False 20,
          min_order_size = round64 lib False (1 / 1000000), quote_code = ''USD'',
          quote_increment = round64 lib False (1 / 100),
          status = ''tradable'', tp_symbol = ''BTC-USD''\<rparr>"
proof (intro conjI impI)
  assume "map_of kvs ''asset_code'' = Some (JStr ac) \<and>
    map_of kvs ''asset_increment'' = Some v1 \<and> py_float lib v1 = Inr ai \<and>
    map_of kvs ''max_order_size'' = Some v2 \<and> py_float lib v2 = Inr mx \<and>
    map_of kvs ''min_order_size'' = Some v3 \<and> py_float lib v3 = Inr mn \<and>
    map_of kvs ''quote_code'' = Some (JStr qc) \<and>
    map_of kvs ''quote_increment'' = Some v4 \<and> py_float lib v4 = Inr qi \<and>
    map_of kvs ''status'' = Some (JStr st) \<and>
    map_of kvs ''symbol'' = Some (JStr sy)"
  then show "TradingPair_from_dict lib (JObj kvs) =
        Inr \<lparr>asset_code = ac, asset_increment = ai, max_order_size = mx,
             min_order_size = mn, quote_code = qc, quote_increment = qi,
             status = st, tp_symbol = sy\<rparr>"
    using tp_success [of kvs ac v1 lib ai v2 mx v3 mn qc v4 qi st sy] by blast
next
  assume "decimal_literal s = Some (neg, q)"
  then show "py_float lib (JStr s) = Inr (round64 lib neg q)"
    by (rule py_float_decimal)
next
  assume "k \<in> set [''asset_code'', ''asset_increment'', ''max_order_size'', ''min_order_size'',
              ''quote_code'', ''quote_increment'', ''status'', ''symbol''] \<and>
    map_of kvs' k = None"
  then show "\<exists>e. TradingPair_from_dict lib (JObj kvs') = Inl e"
    using tp_absent_fails [of k kvs' lib] by blast
next
  assume a: "k \<in> set [''asset_code'', ''asset_increment'', ''max_order_size'', ''min_order_size'',
              ''quote_code'', ''quote_increment'', ''status'', ''symbol''] \<and>
    map_of kvs' k = None"
    and n: "\<forall>n \<in> set [''asset_increment'', ''max_order_size'', ''min_order_size'',
                    ''quote_increment''].
          \<forall>v. map_of kvs' n = Some v \<longrightarrow> (\<exists>x. py_float lib v = Inr x)"
  from a have a1: "k \<in> set [''asset_code'', ''asset_increment'', ''max_order_size'', ''min_order_size'',
              ''quote_code'', ''quote_increment'', ''status'', ''symbol'']"
    and a2: "map_of kvs' k = None" by blast+
  show "\<exists>k'. map_of kvs' k' = None \<and> TradingPair_from_dict lib (JObj kvs') = Inl (KeyError k')"
    by (rule tp_keyerror [OF n a1 a2])
next
  show "TradingPair_from_dict lib sample_trading_pair =
     Inr \<lparr>asset_code = ''BTC'', asset_increment = round64 lib False (1 / 100000000),
          max_order_size = round64 lib False 20,
          min_order_size = round64 lib False (1 / 1000000), quote_code = ''USD'',
          quote_increment = round64 lib False (1 / 100),
          status = ''tradable'', tp_symbol = ''BTC-USD''\<rparr>"
    by (rule sample_tp)
next
  show "TradingPair_from_dict lib scenario_trading_pair =
     Inr \<lparr>asset_code = ''BTC'', asset_increment = round64 lib False (1 / 100000000),
          max_order_size = round64 lib False 20,
          min_order_size = round64 lib False (1 / 1000000), quote_code = ''USD'',
          quote_increment = round64 lib False (1 / 100),
          status = ''tradable'', tp_symbol = ''BTC-USD''\<rparr>"
    by (rule scenario_tp)
qed

theorem TradingPair_from_dict_coerces_witness:
  "TradingPair_from_dict sample_lib
     (JObj [(''asset_code'', JStr ''ETH''), (''asset_increment'', JStr ''0.01''),
            (''max_order_size'', JInt 5), (''min_order_size'', JStr ''-.5''),
            (''quote_code'', JStr ''USD''), (''quote_increment'', JStr ''+1.''),
            (''status'', JStr ''tradable''), (''symbol'', JStr ''ETH-USD'')]) =
     Inr \<lparr>asset_code = ''ETH'', asset_increment = 1 / 100, max_order_size = 5,
          min_order_size = - (1 / 2), quote_code = ''USD'', quote_increment = 1,
          status = ''tradable'', tp_symbol = ''ETH-USD''\<rparr> \<and>
   py_float sample_lib (JStr ''0.000001000000000000'') = Inr (1 / 1000000) \<and>
   (\<exists>k'. map_of [(''asset_code'', JStr ''BTC''), (''asset_increment'', JStr ''0.1'' :: rat json)] k' = None \<and>
      TradingPair_from_dict sample_lib
        (JObj [(''asset_code'', JStr ''BTC''), (''asset_increment'', JStr ''0.1'')]) =
          Inl (KeyError k')) \<and>
   TradingPair_from_dict sample_lib sample_trading_pair =
     Inr \<lparr>asset_code = ''BTC'', asset_increment = 1 / 100000000, max_order_size = 20,
          min_order_size = 1 / 1000000, quote_code = ''USD'', quote_increment = 1 / 100,
          status = ''tradable'', tp_symbol = ''BTC-USD''\<rparr>"
proof -
  let ?eth = "[(''asset_code'', JStr ''ETH''), (''asset_increment'', JStr ''0.01''),
            (''max_order_size'', JInt 5), (''min_order_size'', JStr ''-.5''),
            (''quote_code'', JStr ''USD''), (''quote_increment'', JStr ''+1.''),
            (''status'', JStr ''tradable''), (''symbol'', JStr ''ETH-USD'')] :: (string \<times> rat json) list"
  let ?part = "[(''asset_code'', JStr ''BTC''), (''asset_increment'', JStr ''0.1'')] :: (string \<times> rat json) list"
  note T = TradingPair_from_dict_coerces
    [where lib = sample_lib and kvs = ?eth
       and ac = "''ETH''" and ?v1.0 = "JStr ''0.01''" and ai = "1 / 100"
       and ?v2.0 = "JInt 5" and mx = 5 and ?v3.0 = "JStr ''-.5''" and mn = "- (1 / 2)"
       and qc = "''USD''" and ?v4.0 = "JStr ''+1.''" and qi = 1
       and st = "''tradable''" and sy = "''ETH-USD''"
       and s = "''0.000001000000000000''" and neg = False and q = "1 / 1000000"
       and k = "''max_order_size''" and kvs' = ?part]
  have r: "round64 sample_lib False = (\<lambda>q. q)"
    by (simp add: sample_lib_def)
  have floats:
    "py_float sample_lib (JStr ''0.01'') = Inr (1 / 100)"
    "py_float sample_lib (JInt 5) = Inr 5"
    "py_float sample_lib (JStr ''-.5'') = Inr (- (1 / 2))"
    "py_float sample_lib (JStr ''+1.'') = Inr 1"
    "py_float sample_lib (JStr ''0.1'') = Inr (1 / 10)"
    by (simp_all add: sample_lib_def py_float_def decimal_defs)
  have lit: "decimal_literal ''0.000001000000000000'' = Some (False, 1 / 1000000)"
    by (simp add: decimal_defs)
  have num: "\<forall>n \<in> set [''asset_increment'', ''max_order_size'', ''min_order_size'',
                    ''quote_increment''].
          \<forall>v. map_of ?part n = Some v \<longrightarrow> (\<exists>x. py_float sample_lib v = Inr x)"
    using floats(5) by (simp add: exI [of _ "1 / 10 :: rat"])
  have c1: "TradingPair_from_dict sample_lib (JObj ?eth) =
     Inr \<lparr>asset_code = ''ETH'', asset_increment = 1 / 100, max_order_size = 5,
          min_order_size = - (1 / 2), quote_code = ''USD'', quote_increment = 1,
          status = ''tradable'', tp_symbol = ''ETH-USD''\<rparr>"
    using T floats by simp
  have c2: "py_float sample_lib (JStr ''0.000001000000000000'') = Inr (1 / 1000000)"
    using T lit r by simp
  have c3: "\<exists>k'. map_of ?part k' = None \<and>
      TradingPair_from_dict sample_lib (JObj ?part) = Inl (KeyError k')"
    using T num by simp
  have c4: "TradingPair_from_dict sample_lib sample_trading_pair =
     Inr \<lparr>asset_code = ''BTC'', asset_increment = 1 / 100000000, max_order_size = 20,
          min_order_size = 1 / 1000000, quote_code = ''USD'', quote_increment = 1 / 100,
          status = ''tradable'', tp_symbol = ''BTC-USD''\<rparr>"
    using T r by simp
  from c1 c2 c3 c4 show ?thesis by blast
qed

section \<open>Transport and signer\<close>

lemma make_api_request_GET:
  "make_api_request lib c net now ''GET'' path body st =
     (read_response (net (signed_call lib c now ''GET'' path body None)),
      st\<lparr>sent := sent st @ [signed_call lib c now ''GET'' path body None]\<rparr>)"
  by (simp add: make_api_request_def signed_call_def Let_def)

lemma make_api_request_POST:
  "py_loads lib body = Inr j \<Longrightarrow>
   make_api_request lib c net now ''POST'' path body st =
     (read_response (net (signed_call lib c now ''POST'' path body (Some j))),
      st\<lparr>sent := sent st @ [signed_call lib c now ''POST'' path body (Some j)]\<rparr>)"
  by (simp add: make_api_request_def signed_call_def Let_def)

lemma make_api_request_POST_bad_body:
  "py_loads lib body = Inl e \<Longrightarrow>
   make_api_request lib c net now ''POST'' path body st = (catch e, st)"
  by (simp add: make_api_request_def Let_def)

lemma make_api_request_other_method:
  "method \<noteq> ''GET'' \<Longrightarrow> method \<noteq> ''POST'' \<Longrightarrow>
   make_api_request lib c net now method path body st = (Inl AttributeError, st)"
  by (simp add: make_api_request_def Let_def)

lemma read_response_error_status:
  "400 \<le> status_code resp \<Longrightarrow> read_response (Inr resp) = Inr JNull"
  by (simp add: read_response_def)

lemma read_response_network_error:
  "read_response (Inl (RequestException m)) = Inr JNull"
  by (simp add: read_response_def catch_def)

lemma read_response_ok:
  "status_code resp < 400 \<Longrightarrow> json_result resp = Inr j \<Longrightarrow> read_response (Inr resp) = Inr j"
  by (simp add: read_response_def)

lemma sbind_lift:
  "sbind m (\<lambda>v. lift (f v)) st = (bind (fst (m st)) f, snd (m st))"
  by (cases "m st"; cases "fst (m st)") (auto simp: sbind_def lift_def)

lemma get_estimated_price_eq:
  "get_estimated_price lib c net now symb sd qty st =
     (bind (read_response (net (signed_call lib c now ''GET''
              (''/api/v1/crypto/marketdata/estimated_price/?symbol='' @ symb
                 @ ''&side='' @ sd @ ''&quantity='' @ qty) [] None)))
        (\<lambda>resp. bind (dict_get resp ''results'')
           (\<lambda>r. bind (iterate r) (mapM (EstimatedOrderPrice_from_dict lib)))),
      st\<lparr>sent := sent st @ [signed_call lib c now ''GET''
              (''/api/v1/crypto/marketdata/estimated_price/?symbol='' @ symb
                 @ ''&side='' @ sd @ ''&quantity='' @ qty) [] None]\<rparr>)"
  by (simp add: get_estimated_price_def Let_def sbind_lift make_api_request_GET)

text \<open>
  Claim C3. The claim asks for exactly one HTTP attempt on every request and for no
  exception. \<^verbatim>\<open>cancel_order\<close> posts with the default body \<^verbatim>\<open>""\<close>, on which
  \<^verbatim>\<open>json.loads\<close> raises before \<^verbatim>\<open>requests.post\<close> is reached: the exception is not a
  \<^verbatim>\<open>RequestException\<close>, so it escapes, and no HTTP call is made.
\<close>

theorem cancel_order_raises_without_attempt:
  "cancel_order lib c net now order_id st = (Inl JSONDecodeError, st) \<and>
   sent (snd (cancel_order lib c net now order_id st)) = sent st"
  by (simp add: cancel_order_def make_api_request_POST_bad_body py_loads_def catch_def)

lemma get_account_503:
  "get_account lib c net_503 now st =
     (Inr JNull, st\<lparr>sent := sent st @ [signed_call lib c now ''GET'' ''/api/v1/crypto/trading/accounts/'' [] None]\<rparr>)"
  by (simp add: get_account_def make_api_request_GET net_503_def read_response_def)

text \<open>
  Claim C6. The signed message is the concatenation of the API key, the decimal
  timestamp, the path, the method and the body, in this order and with nothing between
  them; the signature of the private key over it is base64-encoded, and the headers are
  \<^verbatim>\<open>x-api-key\<close>, \<^verbatim>\<open>x-signature\<close> and \<^verbatim>\<open>x-timestamp\<close>. A GET request is sent with
  these headers and no body, while the \<^verbatim>\<open>body\<close> argument (empty in every GET of the
  client, as in \<^verbatim>\<open>get_account\<close>) is still part of the signed message; a POST request
  carries the decoded body.
\<close>

theorem signed_message_and_headers:
  "get_authorization_header lib c method path body ts =
     [(''x-api-key'', api_key c),
      (''x-signature'',
         b64encode lib (sign lib (api_key c @ str_int ts @ path @ method @ body))),
      (''x-timestamp'', str_int ts)] \<and>
   make_api_request lib c net now ''GET'' path body st =
     (read_response (net
        \<lparr>http_method = ''GET'', url = base_url c @ path,
         headers = get_authorization_header lib c ''GET'' path body (get_current_timestamp now),
         json_payload = None, timeout = 10\<rparr>),
      st\<lparr>sent := sent st @
        [\<lparr>http_method = ''GET'', url = base_url c @ path,
          headers = get_authorization_header lib c ''GET'' path body (get_current_timestamp now),
          json_payload = None, timeout = 10\<rparr>]\<rparr>) \<and>
   (py_loads lib body = Inr j \<longrightarrow>
      snd (make_api_request lib c net now ''POST'' path body st) =
        st\<lparr>sent := sent st @
          [\<lparr>http_method = ''POST'', url = base_url c @ path,
            headers = get_authorization_header lib c ''POST'' path body (get_current_timestamp now),
            json_payload = Some j, timeout = 10\<rparr>]\<rparr>) \<and>
   sent (snd (get_account lib c net now st)) = sent st @
     [\<lparr>http_method = ''GET'',
       url = base_url c @ ''/api/v1/crypto/trading/accounts/'',
       headers =
         [(''x-api-key'', api_key c),
          (''x-signature'',
             b64encode lib (sign lib (api_key c @ str_int (get_current_timestamp now)
               @ ''/api/v1/crypto/trading/accounts/'' @ ''GET'' @ []))),
          (''x-timestamp'', str_int (get_current_timestamp now))],
       json_payload = None, timeout = 10\<rparr>]"
  by (simp add: get_authorization_header_def Let_def make_api_request_GET
      make_api_request_POST signed_call_def get_account_def)

theorem signed_message_and_headers_witness:
  "py_loads sample_lib ''{}'' = Inr (JObj []) \<and>
   sent (snd (make_api_request sample_lib sample_client net_503 1731150000 ''POST''
               ''/api/v1/crypto/trading/orders/'' ''{}'' init_state)) =
     [\<lparr>http_method = ''POST'',
       url = ''https://trading.robinhood.com/api/v1/crypto/trading/orders/'',
       headers =
         [(''x-api-key'', ''rh-api-key''),
          (''x-signature'', rev (''rh-api-key'' @ ''1731150000''
              @ ''/api/v1/crypto/trading/orders/'' @ ''POST'' @ ''{}'')),
          (''x-timestamp'', ''1731150000'')],
       json_payload = Some (JObj []), timeout = 10\<rparr>]"
proof -
  have l: "py_loads sample_lib ''{}'' = Inr (JObj [])"
    by (simp add: py_loads_def sample_lib_def)
  have ts: "str_int (get_current_timestamp 1731150000) = ''1731150000''"
    by (simp add: get_current_timestamp_def str_int_def str_nat_digit str_nat_step)
  have h: "get_authorization_header sample_lib sample_client ''POST''
             ''/api/v1/crypto/trading/orders/'' ''{}'' (get_current_timestamp 1731150000) =
           [(''x-api-key'', ''rh-api-key''),
            (''x-signature'', rev (''rh-api-key'' @ ''1731150000''
                @ ''/api/v1/crypto/trading/orders/'' @ ''POST'' @ ''{}'')),
            (''x-timestamp'', ''1731150000'')]"
    unfolding get_authorization_header_def Let_def ts
    by (simp add: sample_lib_def sample_client_def)
  from signed_message_and_headers
         [of sample_lib sample_client "''POST''" "''/api/v1/crypto/trading/orders/''" "''{}''"
             "get_current_timestamp 1731150000" net_503 1731150000 init_state "JObj []"] l
  have "sent (snd (make_api_request sample_lib sample_client net_503 1731150000 ''POST''
               ''/api/v1/crypto/trading/orders/'' ''{}'' init_state)) =
        sent (init_state :: rat state) @
          [\<lparr>http_method = ''POST'',
            url = base_url sample_client @ ''/api/v1/crypto/trading/orders/'',
            headers = get_authorization_header sample_lib sample_client ''POST''
               ''/api/v1/crypto/trading/orders/'' ''{}'' (get_current_timestamp 1731150000),
            json_payload = Some (JObj []), timeout = 10\<rparr>]"
    by simp
  then show ?thesis
    unfolding h using l by (simp add: init_state_def sample_client_def)
qed

section \<open>Price client\<close>

text \<open>
  Claim C10. When the transport returns \<^verbatim>\<open>None\<close>, \<^verbatim>\<open>get_trading_pairs\<close> (on a cache
  miss, the only case in which it calls the transport) raises \<^verbatim>\<open>TypeError\<close> from
  \<^verbatim>\<open>None["results"]\<close>, and \<^verbatim>\<open>get_holdings\<close>, \<^verbatim>\<open>get_best_bid_ask\<close> and
  \<^verbatim>\<open>get_estimated_price\<close> raise \<^verbatim>\<open>AttributeError\<close> from \<^verbatim>\<open>None.get\<close>;
  \<^verbatim>\<open>get_account\<close>, which returns the transport's result as it is, returns \<^verbatim>\<open>None\<close>.
\<close>

theorem absent_transport_result_raises:
  "(fst (make_api_request lib c net now ''GET''
          (''/api/v1/crypto/trading/trading_pairs/'' @ get_query_params ''symbol'' symbols) [] st)
      = Inr JNull \<and>
    (\<forall>e v. cache st symbols = Some (e, v) \<longrightarrow> e \<le> now) \<longrightarrow>
      fst (get_trading_pairs lib c net now symbols st) = Inl TypeError) \<and>
   (fst (make_api_request lib c net now ''GET''
          (''/api/v1/crypto/trading/holdings/'' @ get_query_params ''asset_code'' asset_codes) [] st)
      = Inr JNull \<longrightarrow>
      fst (get_holdings lib c net now asset_codes st) = Inl AttributeError) \<and>
   (fst (make_api_request lib c net now ''GET''
          (''/api/v1/crypto/marketdata/best_bid_ask/'' @ get_query_params ''symbol'' symbols) [] st)
      = Inr JNull \<longrightarrow>
      fst (get_best_bid_ask lib c net now symbols st) = Inl AttributeError) \<and>
   (fst (make_api_request lib c net now ''GET''
          (''/api/v1/crypto/marketdata/estimated_price/?symbol='' @ symb
             @ ''&side='' @ sd @ ''&quantity='' @ qty) [] st)
      = Inr JNull \<longrightarrow>
      fst (get_estimated_price lib c net now symb sd qty st) = Inl AttributeError) \<and>
   (fst (make_api_request lib c net now ''GET'' ''/api/v1/crypto/trading/accounts/'' [] st)
      = Inr JNull \<longrightarrow>
      fst (get_account lib c net now st) = Inr JNull)"
  by (auto simp: get_trading_pairs_def memoize_def fetch_trading_pairs_def get_holdings_def
      get_best_bid_ask_def get_estimated_price_def get_account_def Let_def sbind_lift
      subscript_def dict_get_def split: option.splits prod.splits sum.splits)

lemma net_503_transport:
  "fst (make_api_request lib c net_503 now ''GET'' path body st) = Inr JNull"
  by (simp add: make_api_request_GET net_503_def read_response_def)

theorem absent_transport_result_raises_witness:
  "fst (make_api_request sample_lib sample_client net_503 0 ''GET''
          (''/api/v1/crypto/trading/trading_pairs/'' @ get_query_params ''symbol'' [''BTC-USD'']) []
          init_state) = Inr JNull \<and>
   cache (init_state :: rat state) [''BTC-USD''] = None \<and>
   fst (get_trading_pairs sample_lib sample_client net_503 0 [''BTC-USD''] init_state) = Inl TypeError \<and>
   fst (get_holdings sample_lib sample_client net_503 0 [''BTC''] init_state) = Inl AttributeError \<and>
   fst (get_best_bid_ask sample_lib sample_client net_503 0 [''BTC-USD''] init_state) = Inl AttributeError \<and>
   fst (get_estimated_price sample_lib sample_client net_503 0 ''BTC-USD'' ''bid'' ''1'' init_state)
     = Inl AttributeError \<and>
   fst (get_account sample_lib sample_client net_503 0 init_state) = Inr JNull"
  using absent_transport_result_raises
    [of sample_lib sample_client net_503 0 "[''BTC-USD'']" init_state "[''BTC'']"
        "''BTC-USD''" "''bid''" "''1''"]
  by (simp add: net_503_transport init_state_def)

lemma bid_price_first:
  "fst (get_estimated_bid_price lib c net now symb qty st) =
     bind (fst (get_estimated_price lib c net now symb ''bid'' qty st)) first"
  by (simp add: get_estimated_bid_price_def sbind_lift)

lemma ask_price_first:
  "fst (get_estimated_ask_price lib c net now symb qty st) =
     bind (fst (get_estimated_price lib c net now symb ''ask'' qty st)) first"
  by (simp add: get_estimated_ask_price_def sbind_lift)

lemma estimated_price_of_results:
  "fst (make_api_request lib c net now ''GET''
          (''/api/v1/crypto/marketdata/estimated_price/?symbol='' @ symb
             @ ''&side='' @ sd @ ''&quantity='' @ qty) [] st) = Inr (JObj kvs) \<Longrightarrow>
   map_of kvs ''results'' = Some (JArr rs) \<Longrightarrow>
   fst (get_estimated_price lib c net now symb sd qty st) =
     mapM (EstimatedOrderPrice_from_dict lib) rs"
  by (simp add: get_estimated_price_def Let_def sbind_lift dict_get_def iterate_def)

lemma first_of_mapM:
  "mapM f (r # rest) = Inr ys \<Longrightarrow> bind (mapM f (r # rest)) first = f r"
  by (auto simp: bind_Inr_iff first_def)

text \<open>
  Claim C2, as amended. \<^verbatim>\<open>get_estimated_bid_price\<close> and
  \<^verbatim>\<open>get_estimated_ask_price\<close> ask the upstream for their side and return the first
  entry of the parsed result, whatever the side of that entry: the side is a parameter of
  the query only, and the reply is not filtered. On an empty result set they raise
  \<^verbatim>\<open>IndexError\<close> (the spec's NoQuoteAvailable).
\<close>

theorem estimated_side_price_is_first_entry:
  "(fst (get_estimated_price lib c net now symb ''bid'' qty st) = Inr [] \<longrightarrow>
      fst (get_estimated_bid_price lib c net now symb qty st) = Inl IndexError) \<and>
   (fst (get_estimated_price lib c net now symb ''bid'' qty st) = Inr (x # xs) \<longrightarrow>
      fst (get_estimated_bid_price lib c net now symb qty st) = Inr x) \<and>
   (fst (get_estimated_price lib c net now symb ''ask'' qty st) = Inr [] \<longrightarrow>
      fst (get_estimated_ask_price lib c net now symb qty st) = Inl IndexError) \<and>
   (fst (get_estimated_price lib c net now symb ''ask'' qty st) = Inr (x # xs) \<longrightarrow>
      fst (get_estimated_ask_price lib c net now symb qty st) = Inr x) \<and>
   (fst (make_api_request lib c net now ''GET''
          (''/api/v1/crypto/marketdata/estimated_price/?symbol='' @ symb
             @ ''&side='' @ ''bid'' @ ''&quantity='' @ qty) [] st) = Inr (JObj kvs) \<longrightarrow>
      (map_of kvs ''results'' = Some (JArr []) \<longrightarrow>
         fst (get_estimated_bid_price lib c net now symb qty st) = Inl IndexError) \<and>
      (map_of kvs ''results'' = Some (JArr (r # rest)) \<and>
       mapM (EstimatedOrderPrice_from_dict lib) (r # rest) = Inr ys \<longrightarrow>
         fst (get_estimated_bid_price lib c net now symb qty st) =
           EstimatedOrderPrice_from_dict lib r)) \<and>
   (fst (make_api_request lib c net now ''GET''
          (''/api/v1/crypto/marketdata/estimated_price/?symbol='' @ symb
             @ ''&side='' @ ''ask'' @ ''&quantity='' @ qty) [] st) = Inr (JObj kvs') \<longrightarrow>
      (map_of kvs' ''results'' = Some (JArr []) \<longrightarrow>
         fst (get_estimated_ask_price lib c net now symb qty st) = Inl IndexError) \<and>
      (map_of kvs' ''results'' = Some (JArr (r' # rest')) \<and>
       mapM (EstimatedOrderPrice_from_dict lib) (r' # rest') = Inr ys' \<longrightarrow>
         fst (get_estimated_ask_price lib c net now symb qty st) =
           EstimatedOrderPrice_from_dict lib r'))"
proof (intro conjI impI)
  assume "fst (get_estimated_price lib c net now symb ''bid'' qty st) = Inr []"
  then show "fst (get_estimated_bid_price lib c net now symb qty st) = Inl IndexError"
    by (simp add: bid_price_first first_def)
next
  assume "fst (get_estimated_price lib c net now symb ''bid'' qty st) = Inr (x # xs)"
  then show "fst (get_estimated_bid_price lib c net now symb qty st) = Inr x"
    by (simp add: bid_price_first first_def)
next
  assume "fst (get_estimated_price lib c net now symb ''ask'' qty st) = Inr []"
  then show "fst (get_estimated_ask_price lib c net now symb qty st) = Inl IndexError"
    by (simp add: ask_price_first first_def)
next
  assume "fst (get_estimated_price lib c net now symb ''ask'' qty st) = Inr (x # xs)"
  then show "fst (get_estimated_ask_price lib c net now symb qty st) = Inr x"
    by (simp add: ask_price_first first_def)
next
  assume t: "fst (make_api_request lib c net now ''GET''
          (''/api/v1/crypto/marketdata/estimated_price/?symbol='' @ symb
             @ ''&side='' @ ''bid'' @ ''&quantity='' @ qty) [] st) = Inr (JObj kvs)"
    and e: "map_of kvs ''results'' = Some (JArr [])"
  show "fst (get_estimated_bid_price lib c net now symb qty st) = Inl IndexError"
    unfolding bid_price_first estimated_price_of_results [OF t e]
    by (simp add: first_def)
next
  assume t: "fst (make_api_request lib c net now ''GET''
          (''/api/v1/crypto/marketdata/estimated_price/?symbol='' @ symb
             @ ''&side='' @ ''bid'' @ ''&quantity='' @ qty) [] st) = Inr (JObj kvs)"
    and e: "map_of kvs ''results'' = Some (JArr (r # rest)) \<and>
       mapM (EstimatedOrderPrice_from_dict lib) (r # rest) = Inr ys"
  from e have e1: "map_of kvs ''results'' = Some (JArr (r # rest))"
    and e2: "mapM (EstimatedOrderPrice_from_dict lib) (r # rest) = Inr ys" by blast+
  show "fst (get_estimated_bid_price lib c net now symb qty st) =
           EstimatedOrderPrice_from_dict lib r"
    unfolding bid_price_first estimated_price_of_results [OF t e1]
    by (rule first_of_mapM [OF e2])
next
  assume t: "fst (make_api_request lib c net now ''GET''
          (''/api/v1/crypto/marketdata/estimated_price/?symbol='' @ symb
             @ ''&side='' @ ''ask'' @ ''&quantity='' @ qty) [] st) = Inr (JObj kvs')"
    and e: "map_of kvs' ''results'' = Some (JArr [])"
  show "fst (get_estimated_ask_price lib c net now symb qty st) = Inl IndexError"
    unfolding ask_price_first estimated_price_of_results [OF t e]
    by (simp add: first_def)
next
  assume t: "fst (make_api_request lib c net now ''GET''
          (''/api/v1/crypto/marketdata/estimated_price/?symbol='' @ symb
             @ ''&side='' @ ''ask'' @ ''&quantity='' @ qty) [] st) = Inr (JObj kvs')"
    and e: "map_of kvs' ''results'' = Some (JArr (r' # rest')) \<and>
       mapM (EstimatedOrderPrice_from_dict lib) (r' # rest') = Inr ys'"
  from e have e1: "map_of kvs' ''results'' = Some (JArr (r' # rest'))"
    and e2: "mapM (EstimatedOrderPrice_from_dict lib) (r' # rest') = Inr ys'" by blast+
  show "fst (get_estimated_ask_price lib c net now symb qty st) =
           EstimatedOrderPrice_from_dict lib r'"
    unfolding ask_price_first estimated_price_of_results [OF t e1]
    by (rule first_of_mapM [OF e2])
qed

lemma net_quotes_prices:
  "sd \<in> {''both'', ''bid'', ''ask''} \<Longrightarrow>
   fst (make_api_request sample_lib sample_client (net_quotes qs) now ''GET''
          (''/api/v1/crypto/marketdata/estimated_price/?symbol='' @ ''SHIB-USD''
             @ ''&side='' @ sd @ ''&quantity='' @ ''800.0'') [] st) =
     Inr (JObj [(''results'', JArr qs)])"
  by (auto simp: make_api_request_GET signed_call_def net_quotes_def sample_client_def
      read_response_def ok_response_def)

lemma net_quotes_pairs:
  "fst (make_api_request sample_lib sample_client (net_quotes qs) now ''GET''
          (''/api/v1/crypto/trading/trading_pairs/'' @ get_query_params ''symbol'' [''SHIB-USD'']) [] st) =
     Inr (JObj [(''results'', JArr [shib_trading_pair])])"
  by (simp add: make_api_request_GET signed_call_def net_quotes_def sample_client_def
      read_response_def ok_response_def get_query_params_def)

lemma shib_pair_parses:
  "TradingPair_from_dict sample_lib shib_trading_pair = Inr shib_pair"
  by (simp add: TradingPair_from_dict_def shib_trading_pair_def shib_pair_def subscript_def
      py_float_def str_field_def decimal_defs sample_lib_def)

theorem estimated_side_price_is_first_entry_witness:
  "fst (get_estimated_bid_price sample_lib sample_client (net_quotes []) 0 ''SHIB-USD'' ''800.0''
          init_state) = Inl IndexError \<and>
   fst (get_estimated_ask_price sample_lib sample_client (net_quotes []) 0 ''SHIB-USD'' ''800.0''
          init_state) = Inl IndexError \<and>
   fst (get_estimated_bid_price sample_lib sample_client
          (net_quotes [sample_bid ts_bid, sample_bid ts_bid]) 0 ''SHIB-USD'' ''800.0''
          init_state) = Inr sample_bid_price \<and>
   fst (get_estimated_ask_price sample_lib sample_client
          (net_quotes [sample_ask ts_ask]) 0 ''SHIB-USD'' ''800.0''
          init_state) = Inr (sample_ask_price dt_ask)"
proof -
  have m2: "mapM (EstimatedOrderPrice_from_dict sample_lib) [sample_bid ts_bid, sample_bid ts_bid]
              = Inr [sample_bid_price, sample_bid_price]"
    by (simp add: sample_bid_parses)
  have m1: "mapM (EstimatedOrderPrice_from_dict sample_lib) [sample_ask ts_ask]
              = Inr [sample_ask_price dt_ask]"
    by (simp add: sample_ask_parses)
  have r: "map_of [(''results'', JArr qs)] ''results'' = Some (JArr qs)" for qs :: "rat json list"
    by simp
  note T0 = estimated_side_price_is_first_entry
    [where lib = sample_lib and c = sample_client and net = "net_quotes []" and now = 0
       and symb = "''SHIB-USD''" and qty = "''800.0''" and st = init_state
       and kvs = "[(''results'', JArr [])]" and kvs' = "[(''results'', JArr [])]"]
  note T1 = estimated_side_price_is_first_entry
    [where lib = sample_lib and c = sample_client
       and net = "net_quotes [sample_bid ts_bid, sample_bid ts_bid]" and now = 0
       and symb = "''SHIB-USD''" and qty = "''800.0''" and st = init_state
       and kvs = "[(''results'', JArr [sample_bid ts_bid, sample_bid ts_bid])]"
       and r = "sample_bid ts_bid" and rest = "[sample_bid ts_bid]"
       and ys = "[sample_bid_price, sample_bid_price]"]
  note T2 = estimated_side_price_is_first_entry
    [where lib = sample_lib and c = sample_client
       and net = "net_quotes [sample_ask ts_ask]" and now = 0
       and symb = "''SHIB-USD''" and qty = "''800.0''" and st = init_state
       and kvs' = "[(''results'', JArr [sample_ask ts_ask])]"
       and r' = "sample_ask ts_ask" and rest' = "[]"
       and ys' = "[sample_ask_price dt_ask]"]
  have c1: "fst (get_estimated_bid_price sample_lib sample_client (net_quotes []) 0 ''SHIB-USD''
              ''800.0'' init_state) = Inl IndexError"
    using T0 net_quotes_prices [of "''bid''" "[]" 0 init_state] by simp
  have c2: "fst (get_estimated_ask_price sample_lib sample_client (net_quotes []) 0 ''SHIB-USD''
              ''800.0'' init_state) = Inl IndexError"
    using T0 net_quotes_prices [of "''ask''" "[]" 0 init_state] by simp
  have c3: "fst (get_estimated_bid_price sample_lib sample_client
          (net_quotes [sample_bid ts_bid, sample_bid ts_bid]) 0 ''SHIB-USD'' ''800.0''
          init_state) = Inr sample_bid_price"
    using T1 m2 sample_bid_parses
      net_quotes_prices [of "''bid''" "[sample_bid ts_bid, sample_bid ts_bid]" 0 init_state]
    by simp
  have c4: "fst (get_estimated_ask_price sample_lib sample_client
          (net_quotes [sample_ask ts_ask]) 0 ''SHIB-USD'' ''800.0''
          init_state) = Inr (sample_ask_price dt_ask)"
    using T2 m1 sample_ask_parses
      net_quotes_prices [of "''ask''" "[sample_ask ts_ask]" 0 init_state]
    by simp
  from c1 c2 c3 c4 show ?thesis by blast
qed

text \<open>
  Claim C2 as stated asks for the first entry matching the side. On an upstream result
  that lists a bid entry before an ask entry, \<^verbatim>\<open>get_estimated_ask_price\<close> returns the
  bid entry.
\<close>

theorem ask_price_returns_bid_entry_counterexample:
  "fst (get_estimated_ask_price sample_lib sample_client
          (net_quotes [sample_bid ts_bid, sample_ask ts_ask]) 0 ''SHIB-USD'' ''800.0''
          init_state) = Inr sample_bid_price \<and>
   side sample_bid_price = ''bid''"
proof -
  have t: "fst (make_api_request sample_lib sample_client
                  (net_quotes [sample_bid ts_bid, sample_ask ts_ask]) 0 ''GET''
                  (''/api/v1/crypto/marketdata/estimated_price/?symbol='' @ ''SHIB-USD''
                     @ ''&side='' @ ''ask'' @ ''&quantity='' @ ''800.0'') [] init_state) =
           Inr (JObj [(''results'', JArr [sample_bid ts_bid, sample_ask ts_ask])])"
    by (rule net_quotes_prices) simp
  have r: "map_of [(''results'', JArr [sample_bid ts_bid, sample_ask ts_ask :: rat json])]
             ''results'' = Some (JArr [sample_bid ts_bid, sample_ask ts_ask])"
    by simp
  have "fst (get_estimated_ask_price sample_lib sample_client
          (net_quotes [sample_bid ts_bid, sample_ask ts_ask]) 0 ''SHIB-USD'' ''800.0''
          init_state) = Inr sample_bid_price"
    unfolding ask_price_first estimated_price_of_results [OF t r]
    by (simp add: sample_bid_parses sample_ask_parses first_def)
  moreover have "side sample_bid_price = ''bid''"
    by (simp add: sample_bid_price_def)
  ultimately show ?thesis by blast
qed

section \<open>Memoization of the trading pairs\<close>

lemma fetch_trading_pairs_eq:
  "fetch_trading_pairs lib c net now symbols st =
     (bind (read_response (net (signed_call lib c now ''GET''
              (''/api/v1/crypto/trading/trading_pairs/'' @ get_query_params ''symbol'' symbols)
              [] None)))
        (\<lambda>resp. bind (subscript resp ''results'')
           (\<lambda>r. bind (iterate r) (mapM (TradingPair_from_dict lib)))),
      st\<lparr>sent := sent st @ [signed_call lib c now ''GET''
              (''/api/v1/crypto/trading/trading_pairs/'' @ get_query_params ''symbol'' symbols)
              [] None]\<rparr>)"
  by (simp add: fetch_trading_pairs_def Let_def sbind_lift make_api_request_GET)

lemma get_trading_pairs_hit:
  "cache st symbols = Some (e, v) \<Longrightarrow> now < e \<Longrightarrow>
   get_trading_pairs lib c net now symbols st = (Inr v, st)"
  by (simp add: get_trading_pairs_def memoize_def)

lemma get_trading_pairs_miss:
  assumes "\<forall>e v. cache st symbols = Some (e, v) \<longrightarrow> e \<le> now"
  shows "get_trading_pairs lib c net now symbols st =
     (case fetch_trading_pairs lib c net now symbols st of
        (Inl e, st') \<Rightarrow> (Inl e, st')
      | (Inr v, st') \<Rightarrow> (Inr v, st'\<lparr>cache := (cache st')(symbols \<mapsto> (now + 86400, v))\<rparr>))"
  using assms
  by (cases "cache st symbols")
    (auto simp: get_trading_pairs_def memoize_def split: prod.splits sum.splits)

lemma get_trading_pairs_sent_changed:
  assumes "get_trading_pairs lib c net now symbols st = (r, st1)" and "sent st1 \<noteq> sent st"
  shows "\<forall>e v. cache st symbols = Some (e, v) \<longrightarrow> e \<le> now"
proof (intro allI impI)
  fix e v assume h: "cache st symbols = Some (e, v)"
  show "e \<le> now"
  proof (rule ccontr)
    assume "\<not> e \<le> now"
    then have "now < e" by simp
    from get_trading_pairs_hit [OF h this, of lib c net] assms show False by simp
  qed
qed

lemma get_trading_pairs_stored:
  assumes "get_trading_pairs lib c net now symbols st = (Inr v, st1)" and "sent st1 \<noteq> sent st"
  shows "cache st1 symbols = Some (now + 86400, v)"
proof -
  note miss = get_trading_pairs_sent_changed [OF assms]
  show ?thesis
    using assms(1) unfolding get_trading_pairs_miss [OF miss] fetch_trading_pairs_eq
    by (auto split: sum.splits)
qed

lemma get_trading_pairs_miss_sent:
  assumes "\<forall>e v. cache st symbols = Some (e, v) \<longrightarrow> e \<le> now"
  shows "sent (snd (get_trading_pairs lib c net now symbols st)) =
     sent st @ [signed_call lib c now ''GET''
              (''/api/v1/crypto/trading/trading_pairs/'' @ get_query_params ''symbol'' symbols)
              [] None]"
  unfolding get_trading_pairs_miss [OF assms] fetch_trading_pairs_eq
  by (simp split: sum.splits)

lemma get_estimated_bid_price_state:
  "snd (get_estimated_bid_price lib c net now symb qty st) =
     snd (get_estimated_price lib c net now symb ''bid'' qty st)"
  by (simp add: get_estimated_bid_price_def sbind_lift)

lemma get_estimated_ask_price_state:
  "snd (get_estimated_ask_price lib c net now symb qty st) =
     snd (get_estimated_price lib c net now symb ''ask'' qty st)"
  by (simp add: get_estimated_ask_price_def sbind_lift)

lemma place_order_cache:
  "cache (snd (place_order lib c net now coid sd ot symb cfg st)) = cache st"
  by (simp add: place_order_def make_api_request_def Let_def split: sum.splits)

text \<open>
  Claim C7. Only \<^verbatim>\<open>get_trading_pairs\<close> is memoized, for 86400 seconds. After a call
  that reached the network and returned a result, a call with the same symbols less
  than 86400 seconds after it returns the same result and leaves the state as it is (no
  HTTP call, whatever the network would answer); a call 86400 seconds after it or later
  makes exactly one new HTTP call. The quote, bid/ask and order operations make their
  HTTP call whatever the cache holds, and none of them changes the cache.
\<close>

theorem only_trading_pairs_are_memoized:
  "(get_trading_pairs lib c net now symbols st = (Inr v, st1) \<and> sent st1 \<noteq> sent st \<longrightarrow>
      (now' < now + 86400 \<longrightarrow>
         get_trading_pairs lib c net' now' symbols st1 = (Inr v, st1)) \<and>
      (now + 86400 \<le> now' \<longrightarrow>
         sent (snd (get_trading_pairs lib c net' now' symbols st1)) =
           sent st1 @ [signed_call lib c now' ''GET''
              (''/api/v1/crypto/trading/trading_pairs/'' @ get_query_params ''symbol'' symbols)
              [] None])) \<and>
   snd (get_estimated_price lib c net now symb sd qty st) =
     st\<lparr>sent := sent st @ [signed_call lib c now ''GET''
            (''/api/v1/crypto/marketdata/estimated_price/?symbol='' @ symb
               @ ''&side='' @ sd @ ''&quantity='' @ qty) [] None]\<rparr> \<and>
   snd (get_estimated_bid_price lib c net now symb qty st) =
     st\<lparr>sent := sent st @ [signed_call lib c now ''GET''
            (''/api/v1/crypto/marketdata/estimated_price/?symbol='' @ symb
               @ ''&side='' @ ''bid'' @ ''&quantity='' @ qty) [] None]\<rparr> \<and>
   snd (get_estimated_ask_price lib c net now symb qty st) =
     st\<lparr>sent := sent st @ [signed_call lib c now ''GET''
            (''/api/v1/crypto/marketdata/estimated_price/?symbol='' @ symb
               @ ''&side='' @ ''ask'' @ ''&quantity='' @ qty) [] None]\<rparr> \<and>
   snd (get_best_bid_ask lib c net now symbols st) =
     st\<lparr>sent := sent st @ [signed_call lib c now ''GET''
            (''/api/v1/crypto/marketdata/best_bid_ask/'' @ get_query_params ''symbol'' symbols)
            [] None]\<rparr> \<and>
   snd (get_holdings lib c net now symbols st) =
     st\<lparr>sent := sent st @ [signed_call lib c now ''GET''
            (''/api/v1/crypto/trading/holdings/'' @ get_query_params ''asset_code'' symbols)
            [] None]\<rparr> \<and>
   snd (get_order lib c net now order_id st) =
     st\<lparr>sent := sent st @ [signed_call lib c now ''GET''
            (''/api/v1/crypto/trading/orders/'' @ order_id @ ''/'') [] None]\<rparr> \<and>
   snd (get_orders lib c net now st) =
     st\<lparr>sent := sent st @ [signed_call lib c now ''GET''
            ''/api/v1/crypto/trading/orders/'' [] None]\<rparr> \<and>
   cache (snd (place_order lib c net now coid sd ot symb cfg st)) = cache st \<and>
   cache (snd (cancel_order lib c net now order_id st)) = cache st"
proof (intro conjI impI)
  assume h: "get_trading_pairs lib c net now symbols st = (Inr v, st1) \<and> sent st1 \<noteq> sent st"
    and w: "now' < now + 86400"
  from h have "cache st1 symbols = Some (now + 86400, v)"
    using get_trading_pairs_stored by blast
  from get_trading_pairs_hit [OF this w]
  show "get_trading_pairs lib c net' now' symbols st1 = (Inr v, st1)" .
next
  assume h: "get_trading_pairs lib c net now symbols st = (Inr v, st1) \<and> sent st1 \<noteq> sent st"
    and w: "now + 86400 \<le> now'"
  from h have "cache st1 symbols = Some (now + 86400, v)"
    using get_trading_pairs_stored by blast
  with w have "\<forall>e v. cache st1 symbols = Some (e, v) \<longrightarrow> e \<le> now'" by simp
  from get_trading_pairs_miss_sent [OF this]
  show "sent (snd (get_trading_pairs lib c net' now' symbols st1)) =
           sent st1 @ [signed_call lib c now' ''GET''
              (''/api/v1/crypto/trading/trading_pairs/'' @ get_query_params ''symbol'' symbols)
              [] None]" .
qed (simp_all add: get_estimated_price_eq get_estimated_bid_price_state
      get_estimated_ask_price_state get_best_bid_ask_def get_holdings_def get_order_def
      get_orders_def Let_def sbind_lift make_api_request_GET place_order_cache
      cancel_order_def make_api_request_POST_bad_body py_loads_def)

lemma fetch_trading_pairs_fst:
  "fst (fetch_trading_pairs lib c net now symbols st) =
     bind (fst (make_api_request lib c net now ''GET''
                  (''/api/v1/crypto/trading/trading_pairs/'' @ get_query_params ''symbol'' symbols)
                  [] st))
        (\<lambda>resp. bind (subscript resp ''results'')
           (\<lambda>r. bind (iterate r) (mapM (TradingPair_from_dict lib))))"
  by (simp add: fetch_trading_pairs_def Let_def sbind_lift)

lemma get_trading_pairs_miss_fst:
  assumes "\<forall>e v. cache st symbols = Some (e, v) \<longrightarrow> e \<le> now"
  shows "fst (get_trading_pairs lib c net now symbols st) =
         fst (fetch_trading_pairs lib c net now symbols st)"
  unfolding get_trading_pairs_miss [OF assms]
  by (simp split: prod.splits sum.splits)

lemma sample_pairs:
  "fst (get_trading_pairs sample_lib sample_client (net_quotes qs) now [''SHIB-USD''] init_state)
     = Inr [shib_pair]"
proof -
  have "\<forall>e v. cache (init_state :: rat state) [''SHIB-USD''] = Some (e, v) \<longrightarrow> e \<le> now"
    by (simp add: init_state_def)
  then have "fst (get_trading_pairs sample_lib sample_client (net_quotes qs) now [''SHIB-USD'']
                    init_state) =
             fst (fetch_trading_pairs sample_lib sample_client (net_quotes qs) now [''SHIB-USD'']
                    init_state)"
    by (rule get_trading_pairs_miss_fst)
  also have "\<dots> = Inr [shib_pair]"
    unfolding fetch_trading_pairs_fst net_quotes_pairs
    by (simp add: subscript_def iterate_def shib_pair_parses)
  finally show ?thesis .
qed

theorem only_trading_pairs_are_memoized_witness:
  "(let st1 = snd (get_trading_pairs sample_lib sample_client (net_quotes []) 0
                     [''SHIB-USD''] init_state)
    in get_trading_pairs sample_lib sample_client (net_quotes []) 0 [''SHIB-USD''] init_state
         = (Inr [shib_pair], st1) \<and>
       sent st1 \<noteq> sent (init_state :: rat state) \<and>
       get_trading_pairs sample_lib sample_client net_down 86399 [''SHIB-USD''] st1
         = (Inr [shib_pair], st1) \<and>
       length (sent st1) = 1 \<and>
       length (sent (snd (get_trading_pairs sample_lib sample_client net_down 86400
                            [''SHIB-USD''] st1))) = 2)"
proof -
  define st1 where
    "st1 = snd (get_trading_pairs sample_lib sample_client (net_quotes []) 0
                  [''SHIB-USD''] init_state)"
  have miss: "\<forall>e v. cache (init_state :: rat state) [''SHIB-USD''] = Some (e, v) \<longrightarrow> e \<le> 0"
    by (simp add: init_state_def)
  have h1: "get_trading_pairs sample_lib sample_client (net_quotes []) 0 [''SHIB-USD''] init_state
         = (Inr [shib_pair], st1)"
    unfolding st1_def using sample_pairs [of "[]" 0] by (simp add: prod_eq_iff)
  have s1: "sent st1 = [signed_call sample_lib sample_client 0 ''GET''
              (''/api/v1/crypto/trading/trading_pairs/'' @ get_query_params ''symbol'' [''SHIB-USD''])
              [] None]"
    unfolding st1_def get_trading_pairs_miss_sent [OF miss] by (simp add: init_state_def)
  then have h2: "sent st1 \<noteq> sent (init_state :: rat state)"
    by (simp add: init_state_def)
  note T = only_trading_pairs_are_memoized
    [where lib = sample_lib and c = sample_client and net = "net_quotes []" and now = 0
       and symbols = "[''SHIB-USD'']" and st = init_state and v = "[shib_pair]" and ?st1.0 = st1
       and net' = net_down]
  have c3: "get_trading_pairs sample_lib sample_client net_down 86399 [''SHIB-USD''] st1
         = (Inr [shib_pair], st1)"
    using T [where now' = 86399] h1 h2 by simp
  have c5: "length (sent (snd (get_trading_pairs sample_lib sample_client net_down 86400
                            [''SHIB-USD''] st1))) = 2"
    using T [where now' = 86400] h1 h2 s1 by simp
  from h1 h2 c3 c5 s1 show ?thesis
    unfolding Let_def st1_def [symmetric] by simp
qed

section \<open>Composite operations\<close>

lemma quantity_general:
  assumes "get_trading_pairs lib c net now [symb] st = (Inr (tp # tps), st1)"
    and "get_estimated_bid_price lib c net now symb (float_str lib (min_order_size tp)) st1
           = (Inr r, st2)"
  shows "get_quantity_of_crypto lib c net now symb usd st = (truediv lib usd (price r), st2)"
  using assms by (simp add: get_quantity_of_crypto_def sbind_def lift_def first_def)

text \<open>
  Claim C8. \<^verbatim>\<open>get_quantity_of_crypto\<close> looks the trading pair up (through the cache),
  asks for the bid price at the pair's minimum order size, and returns the amount divided
  by that price; the bid-price lookup is one HTTP call, whatever the cache holds.
\<close>

theorem quantity_is_amount_over_bid_price:
  assumes "get_trading_pairs lib c net now [symb] st = (Inr (tp # tps), st1)"
    and "get_estimated_bid_price lib c net now symb (float_str lib (min_order_size tp)) st1
           = (Inr r, st2)"
  shows "get_quantity_of_crypto lib c net now symb usd st = (truediv lib usd (price r), st2) \<and>
         st2 = st1\<lparr>sent := sent st1 @ [signed_call lib c now ''GET''
            (''/api/v1/crypto/marketdata/estimated_price/?symbol='' @ symb
               @ ''&side='' @ ''bid'' @ ''&quantity='' @ float_str lib (min_order_size tp))
            [] None]\<rparr>"
proof
  show "get_quantity_of_crypto lib c net now symb usd st = (truediv lib usd (price r), st2)"
    by (rule quantity_general [OF assms])
  have "snd (get_estimated_bid_price lib c net now symb (float_str lib (min_order_size tp)) st1)
          = st2"
    using assms(2) by simp
  then show "st2 = st1\<lparr>sent := sent st1 @ [signed_call lib c now ''GET''
            (''/api/v1/crypto/marketdata/estimated_price/?symbol='' @ symb
               @ ''&side='' @ ''bid'' @ ''&quantity='' @ float_str lib (min_order_size tp))
            [] None]\<rparr>"
    by (simp add: get_estimated_bid_price_state get_estimated_price_eq)
qed

lemma sample_quotes:
  "sd \<in> {''both'', ''bid'', ''ask''} \<Longrightarrow>
   fst (get_estimated_price sample_lib sample_client (net_quotes qs) now ''SHIB-USD'' sd ''800.0'' st)
     = mapM (EstimatedOrderPrice_from_dict sample_lib) qs"
  by (rule estimated_price_of_results [OF net_quotes_prices]) simp_all

lemma shib_min_order_size: "float_str sample_lib (min_order_size shib_pair) = ''800.0''"
  by (simp add: sample_lib_def shib_pair_def)

theorem quantity_is_amount_over_bid_price_witness:
  "(let st1 = snd (get_trading_pairs sample_lib sample_client (net_quotes [sample_bid ts_bid]) 0
                     [''SHIB-USD''] init_state);
        st2 = snd (get_estimated_bid_price sample_lib sample_client
                     (net_quotes [sample_bid ts_bid]) 0 ''SHIB-USD'' ''800.0'' st1)
    in get_trading_pairs sample_lib sample_client (net_quotes [sample_bid ts_bid]) 0
         [''SHIB-USD''] init_state = (Inr [shib_pair], st1) \<and>
       get_estimated_bid_price sample_lib sample_client (net_quotes [sample_bid ts_bid]) 0
         ''SHIB-USD'' (float_str sample_lib (min_order_size shib_pair)) st1
         = (Inr sample_bid_price, st2) \<and>
       get_quantity_of_crypto sample_lib sample_client (net_quotes [sample_bid ts_bid]) 0
         ''SHIB-USD'' 1 init_state = (Inr (100000000 / 1943), st2) \<and>
       length (sent st2) = length (sent st1) + 1)"
proof -
  define st1 where
    "st1 = snd (get_trading_pairs sample_lib sample_client (net_quotes [sample_bid ts_bid]) 0
                  [''SHIB-USD''] init_state)"
  define st2 where
    "st2 = snd (get_estimated_bid_price sample_lib sample_client
                  (net_quotes [sample_bid ts_bid]) 0 ''SHIB-USD'' ''800.0'' st1)"
  have h1: "get_trading_pairs sample_lib sample_client (net_quotes [sample_bid ts_bid]) 0
              [''SHIB-USD''] init_state = (Inr [shib_pair], st1)"
    unfolding st1_def using sample_pairs [of "[sample_bid ts_bid]" 0] by (simp add: prod_eq_iff)
  have "fst (get_estimated_bid_price sample_lib sample_client (net_quotes [sample_bid ts_bid]) 0
              ''SHIB-USD'' ''800.0'' st1) = Inr sample_bid_price"
    unfolding bid_price_first by (simp add: sample_quotes sample_bid_parses first_def)
  then have h2: "get_estimated_bid_price sample_lib sample_client (net_quotes [sample_bid ts_bid]) 0
         ''SHIB-USD'' (float_str sample_lib (min_order_size shib_pair)) st1
         = (Inr sample_bid_price, st2)"
    unfolding st2_def shib_min_order_size by (simp add: prod_eq_iff)
  have d: "truediv sample_lib 1 (price sample_bid_price) = Inr (100000000 / 1943)"
    by (simp add: sample_lib_def sample_bid_price_def)
  from quantity_is_amount_over_bid_price [OF h1 h2, of 1] d
  have c: "get_quantity_of_crypto sample_lib sample_client (net_quotes [sample_bid ts_bid]) 0
         ''SHIB-USD'' 1 init_state = (Inr (100000000 / 1943), st2)"
    and l: "length (sent st2) = length (sent st1) + 1"
    by simp_all
  from h1 h2 c l show ?thesis
    unfolding Let_def st1_def [symmetric] st2_def [symmetric] by simp
qed

lemma current_price_general:
  assumes "get_trading_pairs lib c net now [symb] st = (Inr (tp # tps), st1)"
    and "get_estimated_price lib c net now symb ''both'' (float_str lib (min_order_size tp)) st1
           = (Inr both, st2)"
  shows "get_current_estimated_price lib c net now symb st =
     (bind (first (filter (\<lambda>x. side x = ''bid'') both)) (\<lambda>b.
      bind (first (filter (\<lambda>x. side x = ''ask'') both)) (\<lambda>a.
        Inr (EstimatedOrderPriceHistoryEntry_from_objs b a))), st2)"
  using assms by (simp add: get_current_estimated_price_def sbind_def lift_def first_def)

text \<open>
  Claim C1, as amended. \<^verbatim>\<open>get_current_estimated_price\<close> fetches the quotes of both
  sides at the pair's minimum order size and takes the first bid and the first ask of
  the result: with no bid or no ask it raises \<^verbatim>\<open>IndexError\<close>; otherwise, when the two
  timestamps are equal, it returns the entry whose symbol and bid fields are those of the
  first bid, whose ask fields are those of the first ask, and whose timestamp is their
  common timestamp. Further entries of a side are ignored.
\<close>

theorem current_price_mirrors_first_bid_and_ask:
  assumes "get_trading_pairs lib c net now [symb] st = (Inr (tp # tps), st1)"
    and "get_estimated_price lib c net now symb ''both'' (float_str lib (min_order_size tp)) st1
           = (Inr both, st2)"
  shows "(filter (\<lambda>x. side x = ''bid'') both = [] \<or> filter (\<lambda>x. side x = ''ask'') both = [] \<longrightarrow>
            get_current_estimated_price lib c net now symb st = (Inl IndexError, st2)) \<and>
         (filter (\<lambda>x. side x = ''bid'') both = b # bs \<and>
          filter (\<lambda>x. side x = ''ask'') both = a # as \<and>
          dt_eq (timestamp b) (timestamp a) \<longrightarrow>
            (\<exists>e. get_current_estimated_price lib c net now symb st = (Inr e, st2) \<and>
                 he_symbol e = symbol b \<and>
                 bid_price e = price b \<and> bid_quantity e = quantity b \<and>
                 bid_side e = side b \<and> bid_timestamp e = timestamp b \<and>
                 bid_price_including_spread e = price_including_spread b \<and>
                 bid_spread e = spread b \<and>
                 ask_price e = price a \<and> ask_quantity e = quantity a \<and>
                 ask_side e = side a \<and> ask_timestamp e = timestamp a \<and>
                 ask_price_including_spread e = price_including_spread a \<and>
                 ask_spread e = spread a \<and>
                 he_timestamp e = timestamp b \<and> dt_eq (he_timestamp e) (timestamp a)))"
  unfolding current_price_general [OF assms]
  by (auto simp: first_def EstimatedOrderPriceHistoryEntry_from_objs_def split: list.splits)

lemma sample_bid_parses_at_ask:
  "EstimatedOrderPrice_from_dict sample_lib (sample_bid ts_ask) =
     Inr (sample_bid_price\<lparr>timestamp := dt_ask\<rparr>)"
  by (simp add: EstimatedOrderPrice_from_dict_def sample_lib_def sample_bid_def
      sample_bid_price_def subscript_def py_float_def str_field_def decimal_defs ts_ask_def)

lemma sample_sides:
  "side sample_bid_price = ''bid''" "side (sample_ask_price ts) = ''ask''"
  "side (sample_bid_price\<lparr>timestamp := ts\<rparr>) = ''bid''"
  by (simp_all add: sample_bid_price_def sample_ask_price_def)

lemma sample_both_states:
  "get_trading_pairs sample_lib sample_client (net_quotes qs) 0 [''SHIB-USD''] init_state =
     (Inr [shib_pair],
      snd (get_trading_pairs sample_lib sample_client (net_quotes qs) 0 [''SHIB-USD''] init_state))"
  "mapM (EstimatedOrderPrice_from_dict sample_lib) qs = Inr both \<Longrightarrow>
   get_estimated_price sample_lib sample_client (net_quotes qs) 0 ''SHIB-USD'' ''both''
       (float_str sample_lib (min_order_size shib_pair)) st =
     (Inr both,
      snd (get_estimated_price sample_lib sample_client (net_quotes qs) 0 ''SHIB-USD'' ''both''
             ''800.0'' st))"
  using sample_pairs [of qs 0] sample_quotes [of "''both''" qs 0 st]
  by (simp_all add: prod_eq_iff shib_min_order_size)

theorem current_price_mirrors_first_bid_and_ask_witness:
  "(\<exists>e st2. get_current_estimated_price sample_lib sample_client
               (net_quotes [sample_bid ts_bid, sample_ask ts_bid]) 0 ''SHIB-USD'' init_state
               = (Inr e, st2) \<and>
       he_symbol e = ''SHIB-USD'' \<and> bid_price e = 1943 / 100000000 \<and>
       ask_price e = 1945 / 100000000 \<and> bid_side e = ''bid'' \<and> ask_side e = ''ask'' \<and>
       bid_timestamp e = dt_bid \<and> ask_timestamp e = dt_bid \<and> he_timestamp e = dt_bid) \<and>
   fst (get_current_estimated_price sample_lib sample_client
          (net_quotes [sample_ask ts_bid]) 0 ''SHIB-USD'' init_state) = Inl IndexError"
proof -
  have m2: "mapM (EstimatedOrderPrice_from_dict sample_lib) [sample_bid ts_bid, sample_ask ts_bid]
              = Inr [sample_bid_price, sample_ask_price dt_bid]"
    by (simp add: sample_bid_parses sample_ask_parses_at_bid)
  have m1: "mapM (EstimatedOrderPrice_from_dict sample_lib) [sample_ask ts_bid]
              = Inr [sample_ask_price dt_bid]"
    by (simp add: sample_ask_parses_at_bid)
  have f2: "filter (\<lambda>x. side x = ''bid'') [sample_bid_price, sample_ask_price dt_bid]
              = sample_bid_price # []"
    "filter (\<lambda>x. side x = ''ask'') [sample_bid_price, sample_ask_price dt_bid]
              = sample_ask_price dt_bid # []"
    by (simp_all add: sample_sides)
  have f1: "filter (\<lambda>x. side x = ''bid'') [sample_ask_price dt_bid] = []"
    by (simp add: sample_sides)
  have eq: "dt_eq (timestamp sample_bid_price) (timestamp (sample_ask_price dt_bid))"
    by (simp add: sample_bid_price_def sample_ask_price_def dt_eq_refl)
  note T2 = current_price_mirrors_first_bid_and_ask
    [OF sample_both_states(1) sample_both_states(2) [OF m2],
     where b = sample_bid_price and bs = "[]" and a = "sample_ask_price dt_bid" and as = "[]"]
  note T1 = current_price_mirrors_first_bid_and_ask
    [OF sample_both_states(1) sample_both_states(2) [OF m1]]
  from T2 f2 eq have c1: "\<exists>e st2. get_current_estimated_price sample_lib sample_client
               (net_quotes [sample_bid ts_bid, sample_ask ts_bid]) 0 ''SHIB-USD'' init_state
               = (Inr e, st2) \<and>
       he_symbol e = ''SHIB-USD'' \<and> bid_price e = 1943 / 100000000 \<and>
       ask_price e = 1945 / 100000000 \<and> bid_side e = ''bid'' \<and> ask_side e = ''ask'' \<and>
       bid_timestamp e = dt_bid \<and> ask_timestamp e = dt_bid \<and> he_timestamp e = dt_bid"
    by (auto simp: sample_bid_price_def sample_ask_price_def)
  from T1 f1 have c2: "fst (get_current_estimated_price sample_lib sample_client
          (net_quotes [sample_ask ts_bid]) 0 ''SHIB-USD'' init_state) = Inl IndexError"
    by simp
  from c1 c2 show ?thesis by blast
qed

text \<open>
  Claim C1 as stated asks for a failure when a side has several entries. On an upstream
  result with two bid entries and one ask entry the operation succeeds, with the first
  bid.
\<close>

theorem current_price_two_bids_counterexample:
  "fst (get_current_estimated_price sample_lib sample_client
          (net_quotes [sample_bid ts_bid, sample_bid ts_ask, sample_ask ts_bid]) 0
          ''SHIB-USD'' init_state) =
     Inr (EstimatedOrderPriceHistoryEntry_from_objs sample_bid_price (sample_ask_price dt_bid))"
proof -
  have m: "mapM (EstimatedOrderPrice_from_dict sample_lib)
             [sample_bid ts_bid, sample_bid ts_ask, sample_ask ts_bid]
              = Inr [sample_bid_price, sample_bid_price\<lparr>timestamp := dt_ask\<rparr>,
                     sample_ask_price dt_bid]"
    by (simp add: sample_bid_parses sample_bid_parses_at_ask sample_ask_parses_at_bid)
  show ?thesis
    unfolding current_price_general [OF sample_both_states(1) sample_both_states(2) [OF m]]
    by (simp add: sample_sides first_def)
qed

end
